theory Spec2Isabelle
  imports Main "HOL-Library.Sublist"
begin

section \<open>kox: the swagger path section (lib/swagger/paths.js)\<close>

text \<open>
  A shallow embedding of \<^verbatim>\<open>internals.paths.prototype.build\<close> and
  \<^verbatim>\<open>internals.paths.prototype.buildRoutes\<close>. JavaScript objects become records whose
  optional properties are \<open>option\<close> values (\<open>None\<close> stands for \<^verbatim>\<open>null\<close>,
  \<^verbatim>\<open>undefined\<close> and an absent property, which the code never tells apart except where
  noted), a thrown exception becomes \<open>Inl\<close> of a sum type, the calls of
  \<^verbatim>\<open>settings.log\<close> become a list of diagnostics in call order, and the objects the
  collaborating modules mutate (the definitions maps and their caches) become a state that
  is passed through every call.
\<close>

subsection \<open>JavaScript values\<close>

text \<open>
  Strings are \<open>string\<close>s. \<^verbatim>\<open>toLowerCase\<close> and \<^verbatim>\<open>toUpperCase\<close> are modelled on
  the ASCII letters and leave every other character alone, which is what JavaScript does
  on ASCII strings (HTTP methods and header names are ASCII tokens).
\<close>

definition lowerChar :: "char \<Rightarrow> char" where
  "lowerChar c =
     (let n = (of_char c :: nat) in if 65 \<le> n \<and> n \<le> 90 then char_of (n + 32) else c)"

definition upperChar :: "char \<Rightarrow> char" where
  "upperChar c =
     (let n = (of_char c :: nat) in if 97 \<le> n \<and> n \<le> 122 then char_of (n - 32) else c)"

definition toLowerCase :: "string \<Rightarrow> string" where
  "toLowerCase s = map lowerChar s"

definition toUpperCase :: "string \<Rightarrow> string" where
  "toUpperCase s = map upperChar s"

text \<open>\<^verbatim>\<open>xs.join(sep)\<close> on an array of strings.\<close>

fun join :: "string list \<Rightarrow> string \<Rightarrow> string" where
  "join [] sep = []"
| "join [x] sep = x"
| "join (x # y # ys) sep = x @ sep @ join (y # ys) sep"

text \<open>
  Truthiness, as \<^verbatim>\<open>a || b\<close> and \<^verbatim>\<open>if (a)\<close> test it: an object, an array (also the
  empty one) and a function are truthy; a string is truthy unless empty, a number unless
  zero, a boolean when it is \<^verbatim>\<open>true\<close>; \<^verbatim>\<open>null\<close> and \<^verbatim>\<open>undefined\<close> are falsy.
\<close>

definition truthyObj :: "'a option \<Rightarrow> bool" where
  "truthyObj v = (v \<noteq> None)"

definition truthyStr :: "string option \<Rightarrow> bool" where
  "truthyStr v = (case v of None \<Rightarrow> False | Some s \<Rightarrow> s \<noteq> [])"

definition truthyNum :: "int option \<Rightarrow> bool" where
  "truthyNum v = (case v of None \<Rightarrow> False | Some n \<Rightarrow> n \<noteq> 0)"

definition truthyBool :: "bool option \<Rightarrow> bool" where
  "truthyBool v = (v = Some True)"

text \<open>\<^verbatim>\<open>a || null\<close>: a falsy value becomes \<^verbatim>\<open>null\<close>.\<close>

definition orNull :: "('a option \<Rightarrow> bool) \<Rightarrow> 'a option \<Rightarrow> 'a option" where
  "orNull truthy v = (if truthy v then v else None)"

datatype error = TypeError string

type_synonym diag = "string list \<times> string"

subsection \<open>Validation schemas\<close>

text \<open>
  What a route may carry as a validator for one request location: a custom validation
  function, a plain object of keys, or a Joi schema (\<open>JoiValid\<close> is a string schema
  with its allowed values and its default). Of the Joi schemas the code builds two itself: \<^verbatim>\<open>Joi.object().label('Hidden Model')\<close>, an object schema without keys
  carrying a label, and \<^verbatim>\<open>Joi.object({ 'Hidden Model': Joi.string() })\<close>, an object schema
  with one string key.
\<close>

datatype schema =
    Func
  | Plain "(string \<times> schema) list"
  | JoiString
  | JoiValid "string list" "string option"
  | JoiOther string
  | JoiObject "(string \<times> schema) list" "string option"

text \<open>
  Modelled from the spec: \<^verbatim>\<open>Utilities.isFunction\<close> is not part of the sources at hand;
  the spec describes it as the predicate "is it a callable validator", which on the tagged
  schema type is the test for the function variant.
\<close>

fun isFunction :: "schema option \<Rightarrow> bool" where
  "isFunction (Some Func) = True"
| "isFunction _ = False"

definition hiddenPayload :: schema where
  "hiddenPayload = JoiObject [] (Some ''Hidden Model'')"

definition hiddenModel :: schema where
  "hiddenModel = JoiObject [(''Hidden Model'', JoiString)] None"

subsection \<open>Parameters, routes, settings\<close>

text \<open>
  A parameter object as \<^verbatim>\<open>Parameters.fromProperties\<close> returns it. \<open>p_required = None\<close>
  is \<^verbatim>\<open>item.required === undefined\<close>; \<open>p_enum = None\<close> is a falsy \<^verbatim>\<open>header.enum\<close>.
\<close>

record param =
  p_name :: string
  p_in :: string
  p_required :: "bool option"
  p_enum :: "string list option"
  p_default :: "string option"
  p_type :: string

datatype descr = Text string | Lines "string list"

text \<open>
  The route as \<^verbatim>\<open>build\<close> receives it. \<open>r_comsumes\<close> is the property
  \<^verbatim>\<open>route.comsumes\<close> that line 63 reads; \<open>r_consumes\<close> is the property
  \<^verbatim>\<open>route.consumes\<close>, which \<^verbatim>\<open>build\<close> never reads.
\<close>

record route =
  r_path :: string
  r_method :: string
  r_id :: "string option"
  r_description :: "descr option"
  r_summary :: "string option"
  r_tags :: "string list option"
  r_validate_query :: "schema option"
  r_validate_params :: "schema option"
  r_validate_payload :: "schema option"
  r_validate_headers :: "schema option"
  r_response_schema :: "schema option"
  r_response_status :: "(string \<times> schema) list option"
  r_consumes :: "string list option"
  r_comsumes :: "string list option"
  r_produces :: "string list option"
  r_responses :: "(string \<times> schema) list option"
  r_payloadType :: "string option"
  r_security :: "string list option"
  r_order :: "int option"
  r_deprecated :: "bool option"
  r_group :: "string list option"

text \<open>
  \<^verbatim>\<open>routeData\<close>, the element of the list \<^verbatim>\<open>buildRoutes\<close> receives. \<^verbatim>\<open>buildRoutes\<close>
  reads \<^verbatim>\<open>route.notes\<close> (line 139), a property \<^verbatim>\<open>build\<close> never sets.
\<close>

record routeData =
  rd_path :: string
  rd_method :: string
  rd_id :: "string option"
  rd_description :: "descr option"
  rd_summary :: "string option"
  rd_tags :: "string list option"
  rd_queryParams :: "schema option"
  rd_pathParams :: "schema option"
  rd_payloadParams :: "schema option"
  rd_headerParams :: "schema option"
  rd_responseSchema :: "schema option"
  rd_responseStatus :: "(string \<times> schema) list option"
  rd_consumes :: "string list option"
  rd_produces :: "string list option"
  rd_responses :: "(string \<times> schema) list option"
  rd_payloadType :: "string option"
  rd_security :: "string list option"
  rd_order :: "int option"
  rd_deprecated :: "bool option"
  rd_groups :: "string list option"
  rd_notes :: "string list option"

record settings =
  s_basePath :: string
  s_payloadType :: "string option"
  s_consumes :: "string list option"
  s_produces :: "string list option"
  s_acceptToProduce :: bool

text \<open>
  The collaborating modules, none of which is part of the sources at hand, as parameters.
  \<open>replaceInPath c p\<close> is
  \<^verbatim>\<open>Utilities.replaceInPath(p, ['endpoints'], settings.pathReplacements)\<close>, the only way the
  code calls it. \<open>'p\<close> is the property tree of \<^verbatim>\<open>Properties.parseProperty\<close>, \<open>'st\<close>
  the definitions maps and caches that \<^verbatim>\<open>Properties\<close> and \<^verbatim>\<open>Responses\<close> share and
  mutate; \<open>freshState\<close> is their value at lines 111 to 118.
\<close>

type_synonym responsesObj = "(string \<times> string) list"

record ('p, 'st) collab =
  replaceInPath :: "string \<Rightarrow> string"
  toJoiObject :: "schema option \<Rightarrow> schema option"
  hasJoiChildren :: "schema option \<Rightarrow> bool"
  createId :: "string \<Rightarrow> string \<Rightarrow> string"
  stringify :: "schema option \<Rightarrow> string option"
  parseProperty :: "schema \<Rightarrow> string \<Rightarrow> bool \<Rightarrow> bool \<Rightarrow> 'st \<Rightarrow> 'p \<times> 'st"
  fromProperties :: "'p \<Rightarrow> string \<Rightarrow> param list option"
  responsesBuild :: "(string \<times> schema) list option \<Rightarrow> schema option \<Rightarrow>
     (string \<times> schema) list option \<Rightarrow> bool \<Rightarrow> bool \<Rightarrow> 'st \<Rightarrow> responsesObj \<times> 'st"
  freshState :: 'st

subsection \<open>build: the route normalizer (lines 48 to 101)\<close>

definition warnFunction :: diag where
  "warnFunction = ([''validation'', ''warning''],
     ''Using a Joi.function for a query, header or payload is not supported.'')"

definition errorFunction :: diag where
  "errorFunction = ([''validation'', ''error''],
     ''Using a Joi.function for a params is not supported and has been removed.'')"

text \<open>
  The body of the \<^verbatim>\<open>forEach\<close> of lines 75 to 96 for one property: the new value of the
  property and the diagnostics logged.
\<close>

definition swapValidator ::
  "('p, 'st) collab \<Rightarrow> string \<Rightarrow> schema option \<Rightarrow> schema option \<times> diag list" where
  "swapValidator c property v =
     (if isFunction v then
        (if property \<noteq> ''pathParams'' then
           (if property = ''payloadParams'' then (Some hiddenPayload, [warnFunction])
            else (Some hiddenModel, [warnFunction]))
         else (None, [errorFunction]))
      else (toJoiObject c v, []))"

text \<open>
  The callback of \<^verbatim>\<open>routes.map\<close>: the properties are visited in the order
  \<^verbatim>\<open>queryParams\<close>, \<^verbatim>\<open>pathParams\<close>, \<^verbatim>\<open>headerParams\<close>, \<^verbatim>\<open>payloadParams\<close>.
\<close>

definition normalizeRoute :: "('p, 'st) collab \<Rightarrow> route \<Rightarrow> routeData \<times> diag list" where
  "normalizeRoute c r =
     (let (q, lq) = swapValidator c ''queryParams'' (orNull truthyObj (r_validate_query r));
          (p, lp) = swapValidator c ''pathParams'' (orNull truthyObj (r_validate_params r));
          (h, lh) = swapValidator c ''headerParams'' (orNull truthyObj (r_validate_headers r));
          (b, lb) = swapValidator c ''payloadParams'' (orNull truthyObj (r_validate_payload r))
      in (\<lparr> rd_path = replaceInPath c (r_path r),
             rd_method = toUpperCase (r_method r),
             rd_id = r_id r,
             rd_description = r_description r,
             rd_summary = r_summary r,
             rd_tags = r_tags r,
             rd_queryParams = q,
             rd_pathParams = p,
             rd_payloadParams = b,
             rd_headerParams = h,
             rd_responseSchema = r_response_schema r,
             rd_responseStatus = r_response_status r,
             rd_consumes = orNull truthyObj (r_comsumes r),
             rd_produces = orNull truthyObj (r_produces r),
             rd_responses = orNull truthyObj (r_responses r),
             rd_payloadType = orNull truthyStr (r_payloadType r),
             rd_security = orNull truthyObj (r_security r),
             rd_order = orNull truthyNum (r_order r),
             rd_deprecated = orNull truthyBool (r_deprecated r),
             rd_groups = r_group r,
             rd_notes = None \<rparr>,
          lq @ lp @ lh @ lb))"

fun normalizeAll :: "('p, 'st) collab \<Rightarrow> route list \<Rightarrow> routeData list \<times> diag list" where
  "normalizeAll c [] = ([], [])"
| "normalizeAll c (r # rs) =
     (let (d, l) = normalizeRoute c r; (ds, ls) = normalizeAll c rs in (d # ds, l @ ls))"

subsection \<open>Helpers of buildRoutes\<close>

text \<open>\<^verbatim>\<open>internals.overload\<close> (lines 290 to 292): \<^verbatim>\<open>priority || base\<close>.\<close>

definition overload :: "('a option \<Rightarrow> bool) \<Rightarrow> 'a option \<Rightarrow> 'a option \<Rightarrow> 'a option" where
  "overload truthy base priority = (if truthy priority then priority else base)"

text \<open>
  Modelled from the spec: \<^verbatim>\<open>Utilities.startsWith\<close> is not part of the sources at hand;
  the spec describes it as the base-path prefix test.
\<close>

definition startsWith :: "string \<Rightarrow> string \<Rightarrow> bool" where
  "startsWith str str2 = prefix str2 str"

text \<open>\<^verbatim>\<open>str.replace(pat, '')\<close> with a string pattern: the first occurrence goes.\<close>

fun removeFirst :: "string \<Rightarrow> string \<Rightarrow> string" where
  "removeFirst pat [] = []"
| "removeFirst pat (c # cs) =
     (if prefix pat (c # cs) then drop (length pat) (c # cs) else c # removeFirst pat cs)"

text \<open>\<^verbatim>\<open>internals.removeBasePath\<close> (lines 323 to 329).\<close>

definition removeBasePath :: "('p, 'st) collab \<Rightarrow> string \<Rightarrow> string \<Rightarrow> string" where
  "removeBasePath c pth basePath =
     (if basePath \<noteq> ''/'' \<and> startsWith pth basePath
      then replaceInPath c (removeFirst basePath pth)
      else pth)"

text \<open>\<^verbatim>\<open>str.indexOf(pat)\<close>: the first position of the pattern, or -1.\<close>

fun indexOf :: "string \<Rightarrow> string \<Rightarrow> int" where
  "indexOf [] pat = (if pat = [] then 0 else - 1)"
| "indexOf (c # cs) pat =
     (if prefix pat (c # cs) then 0
      else (let i = indexOf cs pat in if i < 0 then - 1 else i + 1))"

text \<open>
  \<^verbatim>\<open>internals.hasFileType\<close> (lines 300 to 303); \<open>stringify\<close> is \<^verbatim>\<open>JSON.stringify\<close> on
  the payload schema, \<open>None\<close> when it returns \<^verbatim>\<open>undefined\<close>.
\<close>

definition hasFileType :: "('p, 'st) collab \<Rightarrow> routeData \<Rightarrow> bool" where
  "hasFileType c r =
     (case stringify c (rd_payloadParams r) of
        None \<Rightarrow> False
      | Some routeString \<Rightarrow> routeString \<noteq> [] \<and> indexOf routeString ''swaggerType'' > - 1)"

text \<open>
  \<^verbatim>\<open>getSwaggerStructures\<close> (lines 356 to 369). Only the \<^verbatim>\<open>parameters\<close> of the
  structure are returned: \<^verbatim>\<open>buildRoutes\<close> never reads its \<^verbatim>\<open>properties\<close>.
\<close>

definition getSwaggerStructures ::
  "('p, 'st) collab \<Rightarrow> schema option \<Rightarrow> string \<Rightarrow> bool \<Rightarrow> bool \<Rightarrow> 'st \<Rightarrow> param list \<times> 'st" where
  "getSwaggerStructures c joiObj parameterType useDefinitions isAlt st =
     (case joiObj of
        None \<Rightarrow> ([], st)
      | Some j \<Rightarrow>
          (let (outProperties, st') = parseProperty c j parameterType useDefinitions isAlt st
           in (case fromProperties c outProperties parameterType of
                 None \<Rightarrow> [] | Some outParameters \<Rightarrow> outParameters, st')))"

text \<open>\<^verbatim>\<open>testParameterError\<close> (lines 378 to 382): the diagnostics it logs.\<close>

definition testParameterError ::
  "('p, 'st) collab \<Rightarrow> schema option \<Rightarrow> string \<Rightarrow> string \<Rightarrow> diag list" where
  "testParameterError c joiObj parameterType pth =
     (if joiObj \<noteq> None \<and> \<not> hasJoiChildren c joiObj
      then [([''validation'', ''error''],
             ''The '' @ pth @ '' route '' @ parameterType @
             '' parameter was set, but not as a Joi.object() with child properties'')]
      else [])"

text \<open>
  Lines 180 to 233 build the path, header and query parameters the same way: the
  structures when the schema has children, the test for an unusable schema otherwise.
\<close>

definition locationStructures ::
  "('p, 'st) collab \<Rightarrow> schema option \<Rightarrow> string \<Rightarrow> string \<Rightarrow> string \<Rightarrow> 'st
     \<Rightarrow> param list \<times> diag list \<times> 'st" where
  "locationStructures c joiObj parameterType errorName pth st =
     (if hasJoiChildren c joiObj
      then (let (ps, st') = getSwaggerStructures c joiObj parameterType False False st
            in (ps, [], st'))
      else ([], testParameterError c joiObj errorName pth, st))"

subsection \<open>Path parameters (lines 180 to 202)\<close>

text \<open>
  \<^verbatim>\<open>new RegExp(`/:${item.name}($|/)`).test(path)\<close>: somewhere in the path stand the two
  characters \<^verbatim>\<open>/:\<close>, the name, and then the end of the path or a \<^verbatim>\<open>/\<close>. The name
  is read as a pattern by JavaScript; \<open>regexpTest\<close> is what the test computes for a
  name that stands for itself there, which \<open>literalName\<close> says: no character of it is
  one of the pattern's special characters. For any other name the test is a different one,
  or the constructor throws a \<^verbatim>\<open>SyntaxError\<close>; the model does not cover such names.
\<close>

definition literalName :: "string \<Rightarrow> bool" where
  "literalName name = (set name \<inter> set (CHR 0x5C # ''^$.|?*+()[]{}'') = {})"

definition matchesHere :: "string \<Rightarrow> string \<Rightarrow> bool" where
  "matchesHere name str =
     (prefix (''/:'' @ name) str \<and>
      (case drop (length (''/:'' @ name)) str of [] \<Rightarrow> True | d # _ \<Rightarrow> d = CHR ''/''))"

fun regexpTest :: "string \<Rightarrow> string \<Rightarrow> bool" where
  "regexpTest name [] = matchesHere name []"
| "regexpTest name (d # ds) = (matchesHere name (d # ds) \<or> regexpTest name ds)"

definition warnOptional :: "string \<Rightarrow> string \<Rightarrow> diag" where
  "warnOptional pth name = ([''validation'', ''warning''],
     ''The '' @ pth @ '' params parameter {'' @ name @
     ''} is set as optional. This will work in the UI, but is invalid in the swagger spec'')"

text \<open>The callback of the \<^verbatim>\<open>forEach\<close> of lines 184 to 199 for one item.\<close>

definition inferRequired :: "string \<Rightarrow> param \<Rightarrow> param \<times> diag list" where
  "inferRequired pth item =
     (let r1 = (if p_required item = None \<and> regexpTest (p_name item) pth
                then Some True else p_required item);
          r2 = (if r1 = Some False then None else r1)
      in (item\<lparr>p_required := r2\<rparr>,
          if \<not> truthyBool r2 then [warnOptional pth (p_name item)] else []))"

fun inferRequiredAll :: "string \<Rightarrow> param list \<Rightarrow> param list \<times> diag list" where
  "inferRequiredAll pth [] = ([], [])"
| "inferRequiredAll pth (item # items) =
     (let (i, l) = inferRequired pth item; (is, ls) = inferRequiredAll pth items
      in (i # is, l @ ls))"

definition pathStructures ::
  "('p, 'st) collab \<Rightarrow> routeData \<Rightarrow> string \<Rightarrow> 'st \<Rightarrow> param list \<times> diag list \<times> 'st" where
  "pathStructures c r pth st =
     (let (ps, l, st') = locationStructures c (rd_pathParams r) ''path'' ''params'' pth st;
          (ps', l') = inferRequiredAll pth ps
      in (ps', l @ l', st'))"

subsection \<open>Header parameters and the accept header (lines 207 to 225)\<close>

text \<open>
  Modelled from the spec: \<^verbatim>\<open>Utilities.sortFirstItem\<close> is not part of the sources at
  hand; the spec describes it as the stable reordering with a preferred first element: the
  default value, if any, comes first and the other values keep their relative order.
\<close>

fun sortFirstItem :: "string list \<Rightarrow> string option \<Rightarrow> string list" where
  "sortFirstItem array None = array"
| "sortFirstItem array (Some firstItem) = firstItem # filter (\<lambda>item. item \<noteq> firstItem) array"

text \<open>
  The \<^verbatim>\<open>filter\<close> of lines 216 to 224, whose callback assigns \<^verbatim>\<open>out.produces\<close> as it
  goes: the headers kept and the value of \<^verbatim>\<open>out.produces\<close> after the last header.
\<close>

definition acceptWithEnum :: "param \<Rightarrow> bool" where
  "acceptWithEnum header = (toLowerCase (p_name header) = ''accept'' \<and> truthyObj (p_enum header))"

fun acceptFilter :: "param list \<Rightarrow> string list option \<Rightarrow> param list \<times> string list option" where
  "acceptFilter [] produced = ([], produced)"
| "acceptFilter (header # headers) produced =
     (if acceptWithEnum header
      then acceptFilter headers (Some (sortFirstItem (the (p_enum header)) (p_default header)))
      else (let (kept, produced') = acceptFilter headers produced in (header # kept, produced')))"

definition headerStructures ::
  "('p, 'st) collab \<Rightarrow> settings \<Rightarrow> routeData \<Rightarrow> string \<Rightarrow> string list option \<Rightarrow> 'st
     \<Rightarrow> param list \<times> string list option \<times> diag list \<times> 'st" where
  "headerStructures c s r pth produced st =
     (let (hs, l, st') = locationStructures c (rd_headerParams r) ''header'' ''headers'' pth st;
          (hs', produced') = (if s_acceptToProduce s then acceptFilter hs produced else (hs, produced))
      in (hs', produced', l, st'))"

subsection \<open>Payload parameters and consumes (lines 145 to 168)\<close>

definition payloadStructures ::
  "('p, 'st) collab \<Rightarrow> routeData \<Rightarrow> string \<Rightarrow> string \<Rightarrow> 'st
     \<Rightarrow> param list \<times> string list option \<times> diag list \<times> 'st" where
  "payloadStructures c r payloadType pth st =
     (if toLowerCase payloadType = ''json''
      then (let (ps, st') = getSwaggerStructures c (rd_payloadParams r) ''body'' True False st
            in (ps, Some [], [], st'))
      else (let (ps, l, st') =
                  locationStructures c (rd_payloadParams r) ''formData'' ''payload form-urlencoded'' pth st
            in (ps, Some [''application/x-www-form-urlencoded''], l, st')))"

subsection \<open>The operation object\<close>

text \<open>\<^verbatim>\<open>internals.hasContentTypeHeader\<close> (lines 337 to 345), a loop over a flag.\<close>

fun contentTypeLoop :: "param list \<Rightarrow> bool \<Rightarrow> bool" where
  "contentTypeLoop [] out = out"
| "contentTypeLoop (param # params) out =
     contentTypeLoop params
       (if p_in param = ''header'' \<and> toLowerCase (p_name param) = ''content-type''
        then True else out)"

definition hasContentTypeHeader :: "param list \<Rightarrow> bool" where
  "hasContentTypeHeader params = contentTypeLoop params False"

text \<open>
  The object \<^verbatim>\<open>out\<close>. A property that is \<open>None\<close> is absent, \<^verbatim>\<open>null\<close> or
  \<^verbatim>\<open>undefined\<close>.
\<close>

record operation =
  op_summary :: "string option"
  op_operationId :: string
  op_description :: "string option"
  op_parameters :: "param list option"
  op_consumes :: "string list option"
  op_produces :: "string list option"
  op_tags :: "string list option"
  op_security :: "string list option"
  op_responses :: "responsesObj option"
  op_x_order :: "int option"
  op_deprecated :: "bool option"

text \<open>
  Modelled from the spec: \<^verbatim>\<open>Utilities.deleteEmptyProperties\<close> is not part of the sources
  at hand; the spec describes it as removing every property that holds an empty array, an
  empty object, \<^verbatim>\<open>null\<close> or \<^verbatim>\<open>undefined\<close>.
\<close>

definition pruneEmpty :: "'a list option \<Rightarrow> 'a list option" where
  "pruneEmpty v = (if v = Some [] then None else v)"

definition deleteEmptyProperties :: "operation \<Rightarrow> operation" where
  "deleteEmptyProperties out =
     out\<lparr> op_parameters := pruneEmpty (op_parameters out),
          op_consumes := pruneEmpty (op_consumes out),
          op_produces := pruneEmpty (op_produces out),
          op_tags := pruneEmpty (op_tags out),
          op_security := pruneEmpty (op_security out),
          op_responses := pruneEmpty (op_responses out) \<rparr>"

text \<open>
  Line 139. \<^verbatim>\<open>route.notes.join\<close> throws a \<^verbatim>\<open>TypeError\<close> when the route has no
  \<^verbatim>\<open>notes\<close>.
\<close>

definition outDescription :: "routeData \<Rightarrow> error + string option" where
  "outDescription r =
     (case rd_description r of
        Some (Lines ls) \<Rightarrow>
          (case rd_notes r of
             None \<Rightarrow> Inl (TypeError ''Cannot read property join of undefined'')
           | Some ns \<Rightarrow> Inr (Some (join ns ''<br/><br/>'')))
      | Some (Text t) \<Rightarrow> Inr (Some t)
      | None \<Rightarrow> Inr None)"

text \<open>
  Lines 170 to 177, for \<^verbatim>\<open>consumes\<close> and for \<^verbatim>\<open>produces\<close>: what the settings or the
  route define goes over what was discovered.
\<close>

definition userDefined :: "'a list option \<Rightarrow> 'a list option \<Rightarrow> 'a list option \<Rightarrow> 'a list option" where
  "userDefined fromSettings fromRoute discovered =
     (if truthyObj fromSettings \<or> truthyObj fromRoute
      then overload truthyObj fromSettings fromRoute else discovered)"

text \<open>
  The callback of \<^verbatim>\<open>routes.forEach\<close> (lines 124 to 266) up to line 261: the path key,
  the method key, the operation object before pruning, the diagnostics logged and the
  collaborators' state. \<^verbatim>\<open>payloadType.toLowerCase()\<close> (line 151) throws when neither the
  settings nor the route give a payload type. Both places that throw come before the
  first diagnostic and the first call that changes the collaborators' state.
\<close>

definition buildOut ::
  "('p, 'st) collab \<Rightarrow> settings \<Rightarrow> routeData \<Rightarrow> 'st
     \<Rightarrow> error + (string \<times> string \<times> operation \<times> diag list \<times> 'st)" where
  "buildOut c s r st =
     (let pth = removeBasePath c (rd_path r) (s_basePath s) in
      case outDescription r of
        Inl e \<Rightarrow> Inl e
      | Inr descr \<Rightarrow>
     (case overload truthyStr (s_payloadType s) (rd_payloadType r) of
        None \<Rightarrow> Inl (TypeError ''Cannot read property toLowerCase of null'')
      | Some payloadType \<Rightarrow>
     (let (payloadPs, consumes1, lPayload, st1) = payloadStructures c r payloadType pth st;
          consumes2 = (if hasFileType c r then Some [''multipart/form-data''] else consumes1);
          consumes3 = userDefined (s_consumes s) (rd_consumes r) consumes2;
          produces1 = userDefined (s_produces s) (rd_produces r) (Some []);
          (pathPs, lPath, st2) = pathStructures c r pth st1;
          (headerPs, produces2, lHeader, st3) = headerStructures c s r pth produces1 st2;
          (queryPs, lQuery, st4) = locationStructures c (rd_queryParams r) ''query'' ''query'' pth st3;
          parameters = [] @ headerPs @ pathPs @ queryPs @ payloadPs;
          consumes4 = (if hasContentTypeHeader parameters then None else consumes3);
          (resp, st5) = responsesBuild c (rd_responses r) (rd_responseSchema r)
                          (rd_responseStatus r) True False st4
      in Inr (pth, toLowerCase (rd_method r),
              \<lparr> op_summary = rd_summary r,
                op_operationId = (if truthyStr (rd_id r) then the (rd_id r)
                                  else createId c (rd_method r) (rd_path r)),
                op_description = descr,
                op_parameters = Some parameters,
                op_consumes = consumes4,
                op_produces = produces2,
                op_tags = overload truthyObj (rd_groups r) (rd_tags r),
                op_security = (if truthyObj (rd_security r) then rd_security r else None),
                op_responses = Some resp,
                op_x_order = (if truthyNum (rd_order r) then rd_order r else None),
                op_deprecated = rd_deprecated r \<rparr>,
              lPayload @ lPath @ lHeader @ lQuery, st5))))"

text \<open>
  Lines 262 to 265: the paths object, a map from the path to a map from the lower-case
  method to the operation.
\<close>

type_synonym pathObj = "string \<rightharpoonup> (string \<rightharpoonup> operation)"

definition putOperation :: "pathObj \<Rightarrow> string \<Rightarrow> string \<Rightarrow> operation \<Rightarrow> pathObj" where
  "putOperation pathObj pth m out =
     (let methods = (case pathObj pth of None \<Rightarrow> Map.empty | Some ms \<Rightarrow> ms)
      in pathObj(pth \<mapsto> methods(m \<mapsto> deleteEmptyProperties out)))"

text \<open>
  The two keys under which line 265 stores the operation of a route: the path of line
  134 and the lower-case method.
\<close>

definition routeKey :: "('p, 'st) collab \<Rightarrow> settings \<Rightarrow> routeData \<Rightarrow> string \<times> string" where
  "routeKey c s r = (removeBasePath c (rd_path r) (s_basePath s), toLowerCase (rd_method r))"

text \<open>
  \<^verbatim>\<open>routes.forEach\<close>: the diagnostics logged, and the paths object with the
  collaborators' state, or the exception that ended the loop.
\<close>

fun forEachRoute ::
  "('p, 'st) collab \<Rightarrow> settings \<Rightarrow> routeData list \<Rightarrow> pathObj \<Rightarrow> 'st
     \<Rightarrow> diag list \<times> (error + pathObj \<times> 'st)" where
  "forEachRoute c s [] pathObj st = ([], Inr (pathObj, st))"
| "forEachRoute c s (r # rs) pathObj st =
     (case buildOut c s r st of
        Inl e \<Rightarrow> ([], Inl e)
      | Inr (pth, m, out, l, st') \<Rightarrow>
          (let (ls, res) = forEachRoute c s rs (putOperation pathObj pth m out) st'
           in (l @ ls, res)))"

text \<open>
  The document: \<open>sw_definitions\<close> holds \<^verbatim>\<open>definitions\<close> and
  \<^verbatim>\<open>x-alt-definitions\<close> as the collaborators left them.
\<close>

record 'st swagger =
  sw_definitions :: 'st
  sw_paths :: pathObj

definition buildRoutes ::
  "('p, 'st) collab \<Rightarrow> settings \<Rightarrow> routeData list \<Rightarrow> diag list \<times> (error + 'st swagger)" where
  "buildRoutes c s routes =
     (let (l, res) = forEachRoute c s routes Map.empty (freshState c)
      in (l, case res of
               Inl e \<Rightarrow> Inl e
             | Inr (pathObj, st) \<Rightarrow> Inr \<lparr> sw_definitions = st, sw_paths = pathObj \<rparr>))"

definition build ::
  "('p, 'st) collab \<Rightarrow> settings \<Rightarrow> route list \<Rightarrow> diag list \<times> (error + 'st swagger)" where
  "build c s routes =
     (let (routesData, l1) = normalizeAll c routes;
          (l2, res) = buildRoutes c s routesData
      in (l1 @ l2, res))"

subsection \<open>A concrete instance for the examples\<close>

text \<open>
  A small stand-in for the collaborators, used where a statement is evaluated on a
  concrete route: the property tree is the list of the children of an object schema, a
  parameter is made of every child (a single parameter named \<^verbatim>\<open>body\<close> for the body),
  and the state counts the calls of \<open>parseProperty\<close>.
\<close>

definition demoParam :: "string \<Rightarrow> string \<times> schema \<Rightarrow> param" where
  "demoParam loc kv =
     \<lparr> p_name = fst kv, p_in = loc, p_required = None,
       p_enum = (case snd kv of JoiValid e d \<Rightarrow> Some e | _ \<Rightarrow> None),
       p_default = (case snd kv of JoiValid e d \<Rightarrow> d | _ \<Rightarrow> None),
       p_type = ''string'' \<rparr>"

definition demoCollab :: "((string \<times> schema) list, nat) collab" where
  "demoCollab = \<lparr>
     replaceInPath = (\<lambda>p. p),
     toJoiObject = (\<lambda>v. case v of Some (Plain kvs) \<Rightarrow> Some (JoiObject kvs None) | _ \<Rightarrow> v),
     hasJoiChildren = (\<lambda>v. case v of Some (JoiObject (kv # kvs) l) \<Rightarrow> True | _ \<Rightarrow> False),
     createId = (\<lambda>m p. m @ p),
     stringify = (\<lambda>v. case v of None \<Rightarrow> Some ''null'' | Some j \<Rightarrow> Some ''{}''),
     parseProperty = (\<lambda>j loc useDefinitions isAlt st.
        (case j of JoiObject kvs l \<Rightarrow> kvs | _ \<Rightarrow> [], Suc st)),
     fromProperties = (\<lambda>kvs loc.
        Some (if loc = ''body'' then [demoParam loc (''body'', JoiOther ''object'')]
              else map (demoParam loc) kvs)),
     responsesBuild = (\<lambda>userDefined defaultSchema statusSchemas useDefinitions isAlt st.
        ([(''default'', ''ok'')], st)),
     freshState = 0 \<rparr>"

definition demoSettings :: settings where
  "demoSettings = \<lparr> s_basePath = ''/'', s_payloadType = Some ''json'', s_consumes = None,
     s_produces = None, s_acceptToProduce = False \<rparr>"

definition demoRoute :: "string \<Rightarrow> string \<Rightarrow> route" where
  "demoRoute pth m = \<lparr> r_path = pth, r_method = m, r_id = None, r_description = None,
     r_summary = None, r_tags = None, r_validate_query = None, r_validate_params = None,
     r_validate_payload = None, r_validate_headers = None, r_response_schema = None,
     r_response_status = None, r_consumes = None, r_comsumes = None, r_produces = None,
     r_responses = None, r_payloadType = None, r_security = None, r_order = None,
     r_deprecated = None, r_group = None \<rparr>"

text \<open>
  The operation the document holds for a path and a lower-case method, and the same for
  the result of \<^verbatim>\<open>build\<close> (\<open>None\<close> also when \<^verbatim>\<open>build\<close> threw).
\<close>

definition pathObjAt :: "pathObj \<Rightarrow> string \<Rightarrow> string \<Rightarrow> operation option" where
  "pathObjAt pathObj pth m = (case pathObj pth of None \<Rightarrow> None | Some ms \<Rightarrow> ms m)"

definition operationAt :: "'st swagger \<Rightarrow> string \<Rightarrow> string \<Rightarrow> operation option" where
  "operationAt doc pth m = pathObjAt (sw_paths doc) pth m"

text \<open>A route whose four validators are custom functions.\<close>

definition funcRoute :: route where
  "funcRoute = (demoRoute ''/a'' ''get'')\<lparr> r_validate_query := Some Func,
     r_validate_params := Some Func, r_validate_payload := Some Func,
     r_validate_headers := Some Func \<rparr>"

definition emittedOperation ::
  "diag list \<times> (error + 'st swagger) \<Rightarrow> string \<Rightarrow> string \<Rightarrow> operation option" where
  "emittedOperation res pth m =
     (case snd res of Inl e \<Rightarrow> None | Inr doc \<Rightarrow> operationAt doc pth m)"

text \<open>
  A route with a schema for every location, and the same route with form encoding and a
  \<^verbatim>\<open>Content-Type\<close> header.
\<close>

definition fullRoute :: route where
  "fullRoute = (demoRoute ''/item/:id'' ''post'')\<lparr>
     r_validate_query := Some (JoiObject [(''q'', JoiString)] None),
     r_validate_params := Some (JoiObject [(''id'', JoiString)] None),
     r_validate_payload := Some (JoiObject [(''name'', JoiString)] None),
     r_validate_headers := Some (JoiObject [(''x-token'', JoiString)] None) \<rparr>"

definition formRoute :: route where
  "formRoute = fullRoute\<lparr>
     r_payloadType := Some ''form'',
     r_validate_headers := Some (JoiObject [(''Content-Type'', JoiString)] None) \<rparr>"

text \<open>
  A route whose header schema has an \<^verbatim>\<open>Accept\<close> field with the values \<^verbatim>\<open>a\<close> and
  \<^verbatim>\<open>b\<close> and the default \<^verbatim>\<open>b\<close>, and an \<^verbatim>\<open>accept\<close> field without values.
\<close>

definition acceptRoute :: route where
  "acceptRoute = (demoRoute ''/a'' ''get'')\<lparr>
     r_validate_headers := Some (JoiObject
       [(''Accept'', JoiValid [''a'', ''b''] (Some ''b'')), (''accept'', JoiString)] None) \<rparr>"

definition acceptSettings :: settings where
  "acceptSettings = demoSettings\<lparr> s_acceptToProduce := True \<rparr>"

text \<open>Routes with one path parameter, in the three ways of writing the placeholder.\<close>

definition itemRoute :: "string \<Rightarrow> route" where
  "itemRoute pth = (demoRoute pth ''get'')\<lparr>
     r_validate_params := Some (JoiObject [(''id'', JoiString)] None) \<rparr>"

text \<open>The operation the stand-in collaborators give for a route without metadata.\<close>

definition demoOut :: "string \<Rightarrow> param list \<Rightarrow> operation" where
  "demoOut opId params =
     \<lparr> op_summary = None, op_operationId = opId, op_description = None,
       op_parameters = Some params, op_consumes = Some [], op_produces = Some [],
       op_tags = None, op_security = None, op_responses = Some [(''default'', ''ok'')],
       op_x_order = None, op_deprecated = None \<rparr>"

definition fullParams :: "param list" where
  "fullParams =
     [demoParam ''header'' (''x-token'', JoiString),
      (demoParam ''path'' (''id'', JoiString))\<lparr>p_required := Some True\<rparr>,
      demoParam ''query'' (''q'', JoiString),
      demoParam ''body'' (''body'', JoiOther ''object'')]"

definition formParams :: "param list" where
  "formParams =
     [demoParam ''header'' (''Content-Type'', JoiString),
      (demoParam ''path'' (''id'', JoiString))\<lparr>p_required := Some True\<rparr>,
      demoParam ''query'' (''q'', JoiString),
      demoParam ''formData'' (''name'', JoiString)]"

definition acceptParams :: "param list" where
  "acceptParams = [demoParam ''header'' (''accept'', JoiString)]"

definition acceptOut :: operation where
  "acceptOut = (demoOut ''GET/a'' acceptParams)\<lparr>op_produces := Some [''b'', ''a'']\<rparr>"

definition itemOut :: "string \<Rightarrow> bool option \<Rightarrow> operation" where
  "itemOut pth required =
     demoOut (''GET'' @ pth) [(demoParam ''path'' (''id'', JoiString))\<lparr>p_required := required\<rparr>]"

text \<open>
  The names and the \<^verbatim>\<open>required\<close> values of the parameters of the operation that the
  result of \<^verbatim>\<open>build\<close> holds for a path and a method.
\<close>

definition emittedRequired ::
  "diag list \<times> (error + 'st swagger) \<Rightarrow> string \<Rightarrow> string \<Rightarrow> (string \<times> bool option) list option" where
  "emittedRequired res pth m =
     (case emittedOperation res pth m of
        None \<Rightarrow> None
      | Some out \<Rightarrow>
          (case op_parameters out of
             None \<Rightarrow> Some []
           | Some params \<Rightarrow> Some (map (\<lambda>p. (p_name p, p_required p)) params)))"

text \<open>Two routes with the same path and the same method.\<close>

definition firstRoute :: route where
  "firstRoute = (demoRoute ''/a'' ''get'')\<lparr> r_summary := Some ''first'' \<rparr>"

definition secondRoute :: route where
  "secondRoute = (demoRoute ''/a'' ''GET'')\<lparr> r_summary := Some ''second'' \<rparr>"

definition summaryOut :: "string \<Rightarrow> operation" where
  "summaryOut text = (demoOut ''GET/a'' [])\<lparr> op_summary := Some text \<rparr>"

text \<open>The exception \<^verbatim>\<open>build\<close> ended with, if it threw.\<close>

definition thrown :: "diag list \<times> (error + 'st swagger) \<Rightarrow> error option" where
  "thrown res = (case snd res of Inl e \<Rightarrow> Some e | Inr doc \<Rightarrow> None)"

section \<open>Properties\<close>

subsection \<open>The route normalizer\<close>

lemma orNull_truthyObj: "orNull truthyObj v = v"
  by (simp add: orNull_def truthyObj_def)

lemma normalizeAll_map:
  "normalizeAll c routes =
     (map (\<lambda>r. fst (normalizeRoute c r)) routes,
      concat (map (\<lambda>r. snd (normalizeRoute c r)) routes))"
  by (induction routes) (simp_all add: split_def Let_def)

lemma build_log_normalize:
  "r \<in> set routes \<Longrightarrow> set (snd (normalizeRoute c r)) \<subseteq> set (fst (build c s routes))"
  by (auto simp: build_def normalizeAll_map split_def Let_def)

lemma swapValidator_cases:
  "swapValidator c property v =
     (if isFunction v
      then (if property = ''pathParams'' then (None, [errorFunction])
            else if property = ''payloadParams'' then (Some hiddenPayload, [warnFunction])
            else (Some hiddenModel, [warnFunction]))
      else (toJoiObject c v, []))"
  by (simp add: swapValidator_def)

text \<open>
  C5. For every route that \<^verbatim>\<open>build\<close> normalizes: the normalized route is among those
  handed to \<^verbatim>\<open>buildRoutes\<close> and its diagnostics are among those \<^verbatim>\<open>build\<close> logs; a
  function validator for the query or the headers is replaced by the object schema with
  the one string key \<^verbatim>\<open>Hidden Model\<close> and a warning is logged; a function validator for
  the payload is replaced by the object schema labelled \<^verbatim>\<open>Hidden Model\<close> and a warning is
  logged; a function validator for the path is replaced by \<^verbatim>\<open>null\<close> and an error is
  logged.
\<close>

theorem function_validators_replaced:
  assumes "r \<in> set routes"
  shows "fst (normalizeRoute c r) \<in> set (fst (normalizeAll c routes)) \<and>
         set (snd (normalizeRoute c r)) \<subseteq> set (fst (build c s routes)) \<and>
         (isFunction (r_validate_query r) \<longrightarrow>
            rd_queryParams (fst (normalizeRoute c r)) = Some hiddenModel \<and>
            warnFunction \<in> set (snd (normalizeRoute c r))) \<and>
         (isFunction (r_validate_headers r) \<longrightarrow>
            rd_headerParams (fst (normalizeRoute c r)) = Some hiddenModel \<and>
            warnFunction \<in> set (snd (normalizeRoute c r))) \<and>
         (isFunction (r_validate_payload r) \<longrightarrow>
            rd_payloadParams (fst (normalizeRoute c r)) = Some hiddenPayload \<and>
            warnFunction \<in> set (snd (normalizeRoute c r))) \<and>
         (isFunction (r_validate_params r) \<longrightarrow>
            rd_pathParams (fst (normalizeRoute c r)) = None \<and>
            errorFunction \<in> set (snd (normalizeRoute c r)))"
proof -
  have member: "fst (normalizeRoute c r) \<in> set (fst (normalizeAll c routes))"
    using assms by (simp add: normalizeAll_map)
  have logged: "set (snd (normalizeRoute c r)) \<subseteq> set (fst (build c s routes))"
    using assms by (rule build_log_normalize)
  have fields: "(isFunction (r_validate_query r) \<longrightarrow>
            rd_queryParams (fst (normalizeRoute c r)) = Some hiddenModel \<and>
            warnFunction \<in> set (snd (normalizeRoute c r))) \<and>
         (isFunction (r_validate_headers r) \<longrightarrow>
            rd_headerParams (fst (normalizeRoute c r)) = Some hiddenModel \<and>
            warnFunction \<in> set (snd (normalizeRoute c r))) \<and>
         (isFunction (r_validate_payload r) \<longrightarrow>
            rd_payloadParams (fst (normalizeRoute c r)) = Some hiddenPayload \<and>
            warnFunction \<in> set (snd (normalizeRoute c r))) \<and>
         (isFunction (r_validate_params r) \<longrightarrow>
            rd_pathParams (fst (normalizeRoute c r)) = None \<and>
            errorFunction \<in> set (snd (normalizeRoute c r)))"
    by (simp add: normalizeRoute_def orNull_truthyObj swapValidator_cases split_def Let_def)
  from member logged fields show ?thesis by blast
qed

theorem function_validators_replaced_witness:
  "funcRoute \<in> set [funcRoute] \<and>
   isFunction (r_validate_query funcRoute) \<and> isFunction (r_validate_headers funcRoute) \<and>
   isFunction (r_validate_payload funcRoute) \<and> isFunction (r_validate_params funcRoute) \<and>
   rd_queryParams (fst (normalizeRoute demoCollab funcRoute)) = Some hiddenModel \<and>
   rd_headerParams (fst (normalizeRoute demoCollab funcRoute)) = Some hiddenModel \<and>
   rd_payloadParams (fst (normalizeRoute demoCollab funcRoute)) = Some hiddenPayload \<and>
   rd_pathParams (fst (normalizeRoute demoCollab funcRoute)) = None \<and>
   fst (build demoCollab demoSettings [funcRoute]) =
     [warnFunction, errorFunction, warnFunction, warnFunction]"
proof -
  have f: "isFunction (r_validate_query funcRoute) \<and> isFunction (r_validate_headers funcRoute) \<and>
   isFunction (r_validate_payload funcRoute) \<and> isFunction (r_validate_params funcRoute)"
    by (simp add: funcRoute_def demoRoute_def)
  have l: "fst (build demoCollab demoSettings [funcRoute]) =
     [warnFunction, errorFunction, warnFunction, warnFunction]"
    by code_simp
  show ?thesis
    using function_validators_replaced [of funcRoute "[funcRoute]" demoCollab demoSettings] f l
    by simp
qed

subsection \<open>The operation builder\<close>

text \<open>What a successful run of the callback for one route is made of.\<close>

lemma buildOut_Inr:
  assumes "buildOut c s r st = Inr (pth, m, out, l, st')"
  obtains descr payloadType payloadPs consumes1 lPayload st1 pathPs lPath st2
    headerPs produces2 lHeader st3 queryPs lQuery st4 where
    "pth = removeBasePath c (rd_path r) (s_basePath s)"
    "m = toLowerCase (rd_method r)"
    "outDescription r = Inr descr"
    "overload truthyStr (s_payloadType s) (rd_payloadType r) = Some payloadType"
    "payloadStructures c r payloadType pth st = (payloadPs, consumes1, lPayload, st1)"
    "pathStructures c r pth st1 = (pathPs, lPath, st2)"
    "headerStructures c s r pth (userDefined (s_produces s) (rd_produces r) (Some [])) st2 =
       (headerPs, produces2, lHeader, st3)"
    "locationStructures c (rd_queryParams r) ''query'' ''query'' pth st3 = (queryPs, lQuery, st4)"
    "op_parameters out = Some (headerPs @ pathPs @ queryPs @ payloadPs)"
    "op_consumes out =
       (if hasContentTypeHeader (headerPs @ pathPs @ queryPs @ payloadPs) then None
        else userDefined (s_consumes s) (rd_consumes r)
               (if hasFileType c r then Some [''multipart/form-data''] else consumes1))"
    "op_produces out = produces2"
    "op_description out = descr"
    "op_deprecated out = rd_deprecated r"
    "l = lPayload @ lPath @ lHeader @ lQuery"
  using assms
  unfolding buildOut_def Let_def
  by (auto split: sum.splits option.splits prod.splits)

lemma getSwaggerStructures_in:
  assumes "\<And>tree loc ps. fromProperties c tree loc = Some ps \<Longrightarrow> \<forall>p\<in>set ps. p_in p = loc"
    and "getSwaggerStructures c joiObj loc useDefinitions isAlt st = (ps, st')"
  shows "\<forall>p\<in>set ps. p_in p = loc"
  using assms(2) assms(1)
  by (auto simp: getSwaggerStructures_def split_def Let_def split: option.splits)

lemma locationStructures_in:
  assumes "\<And>tree loc ps. fromProperties c tree loc = Some ps \<Longrightarrow> \<forall>p\<in>set ps. p_in p = loc"
    and "locationStructures c joiObj loc errorName pth st = (ps, l, st')"
  shows "\<forall>p\<in>set ps. p_in p = loc"
proof (cases "hasJoiChildren c joiObj")
  case True
  with assms(2) have "getSwaggerStructures c joiObj loc False False st = (ps, st')"
    by (simp add: locationStructures_def split_def prod_eq_iff Let_def)
  with assms(1) show ?thesis by (rule getSwaggerStructures_in)
next
  case False
  with assms(2) show ?thesis by (simp add: locationStructures_def)
qed

lemma inferRequiredAll_map:
  "inferRequiredAll pth items =
     (map (\<lambda>item. fst (inferRequired pth item)) items,
      concat (map (\<lambda>item. snd (inferRequired pth item)) items))"
  by (induction items) (simp_all add: split_def Let_def)

lemma inferRequired_in: "p_in (fst (inferRequired pth item)) = p_in item"
  by (simp add: inferRequired_def Let_def)

lemma inferRequired_name: "p_name (fst (inferRequired pth item)) = p_name item"
  by (simp add: inferRequired_def Let_def)

lemma pathStructures_eq:
  assumes "pathStructures c r pth st = (ps, l, st')"
  obtains items l0 where
    "locationStructures c (rd_pathParams r) ''path'' ''params'' pth st = (items, l0, st')"
    "ps = map (\<lambda>item. fst (inferRequired pth item)) items"
    "l = l0 @ concat (map (\<lambda>item. snd (inferRequired pth item)) items)"
proof -
  obtain items l0 st0 where
    loc: "locationStructures c (rd_pathParams r) ''path'' ''params'' pth st = (items, l0, st0)"
    by (rule prod_cases3)
  with assms have "ps = map (\<lambda>item. fst (inferRequired pth item)) items"
    and "l = l0 @ concat (map (\<lambda>item. snd (inferRequired pth item)) items)"
    and "st0 = st'"
    by (simp_all add: pathStructures_def inferRequiredAll_map Let_def)
  with loc show thesis by (simp add: that)
qed

lemma acceptFilter_eq:
  "acceptFilter headers produced =
     (filter (\<lambda>h. \<not> acceptWithEnum h) headers,
      (case filter acceptWithEnum headers of
         [] \<Rightarrow> produced
       | h # hs \<Rightarrow> Some (sortFirstItem (the (p_enum (last (h # hs)))) (p_default (last (h # hs))))))"
proof (induction headers arbitrary: produced)
  case Nil
  show ?case by simp
next
  case (Cons header headers)
  show ?case
  proof (cases "acceptWithEnum header")
    case True
    then show ?thesis
      by (simp add: Cons.IH split: list.splits)
  next
    case False
    then show ?thesis
      by (simp add: Cons.IH)
  qed
qed

lemma headerStructures_eq:
  assumes "headerStructures c s r pth produced st = (hs, produced', l, st')"
  obtains items where
    "locationStructures c (rd_headerParams r) ''header'' ''headers'' pth st = (items, l, st')"
    "(hs, produced') = (if s_acceptToProduce s then acceptFilter items produced else (items, produced))"
proof -
  obtain items l0 st0 where
    loc: "locationStructures c (rd_headerParams r) ''header'' ''headers'' pth st = (items, l0, st0)"
    by (rule prod_cases3)
  with assms have "(hs, produced') =
      (if s_acceptToProduce s then acceptFilter items produced else (items, produced))"
    and "l0 = l" and "st0 = st'"
    by (auto simp: headerStructures_def Let_def split_def split: if_splits)
  with loc show thesis by (simp add: that)
qed

lemma contentTypeLoop_iff:
  "contentTypeLoop params out \<longleftrightarrow>
     out \<or> (\<exists>p\<in>set params. p_in p = ''header'' \<and> toLowerCase (p_name p) = ''content-type'')"
  by (induction params arbitrary: out) auto

lemma hasContentTypeHeader_iff:
  "hasContentTypeHeader params \<longleftrightarrow>
     (\<exists>p\<in>set params. p_in p = ''header'' \<and> toLowerCase (p_name p) = ''content-type'')"
  by (simp add: hasContentTypeHeader_def contentTypeLoop_iff)

lemma payloadStructures_in:
  assumes "\<And>tree loc ps. fromProperties c tree loc = Some ps \<Longrightarrow> \<forall>p\<in>set ps. p_in p = loc"
    and "payloadStructures c r payloadType pth st = (ps, cons, l, st')"
  shows "\<forall>p\<in>set ps. p_in p = ''body'' \<or> p_in p = ''formData''"
proof (cases "toLowerCase payloadType = ''json''")
  case True
  with assms(2) have "getSwaggerStructures c (rd_payloadParams r) ''body'' True False st = (ps, st')"
    by (simp add: payloadStructures_def split_def prod_eq_iff Let_def)
  with assms(1) have "\<forall>p\<in>set ps. p_in p = ''body''" by (rule getSwaggerStructures_in)
  then show ?thesis by simp
next
  case False
  with assms(2) obtain l0 where
    "locationStructures c (rd_payloadParams r) ''formData'' ''payload form-urlencoded'' pth st = (ps, l0, st')"
    by (auto simp: payloadStructures_def split_def prod_eq_iff Let_def)
  with assms(1) have "\<forall>p\<in>set ps. p_in p = ''formData''" by (rule locationStructures_in)
  then show ?thesis by simp
qed

text \<open>
  C6. The parameter list of the operation built for a route is the header parameters,
  then the path parameters, then the query parameters, then the parameters of the payload
  (body or formData), each block being what the route's schema for that location gives;
  the emitted operation has this list, or no list when it is empty. That every parameter
  made for a location carries that location is what \<^verbatim>\<open>Parameters.fromProperties\<close>
  promises.
\<close>

theorem parameters_in_fixed_order:
  assumes run: "buildOut c s r st = Inr (pth, m, out, l, st')"
    and contract: "\<forall>tree loc ps. fromProperties c tree loc = Some ps \<longrightarrow> (\<forall>p\<in>set ps. p_in p = loc)"
  shows "\<exists>hs ps qs bs payloadType st1 st2 st3.
           hs = fst (headerStructures c s r pth (userDefined (s_produces s) (rd_produces r) (Some [])) st2) \<and>
           ps = fst (pathStructures c r pth st1) \<and>
           qs = fst (locationStructures c (rd_queryParams r) ''query'' ''query'' pth st3) \<and>
           bs = fst (payloadStructures c r payloadType pth st) \<and>
           op_parameters out = Some (hs @ ps @ qs @ bs) \<and>
           op_parameters (deleteEmptyProperties out) =
             (if hs @ ps @ qs @ bs = [] then None else Some (hs @ ps @ qs @ bs)) \<and>
           (\<forall>p\<in>set hs. p_in p = ''header'') \<and>
           (\<forall>p\<in>set ps. p_in p = ''path'') \<and>
           (\<forall>p\<in>set qs. p_in p = ''query'') \<and>
           (\<forall>p\<in>set bs. p_in p = ''body'' \<or> p_in p = ''formData'')"
proof -
  from contract have located:
    "\<And>tree loc ps. fromProperties c tree loc = Some ps \<Longrightarrow> \<forall>p\<in>set ps. p_in p = loc"
    by blast
  from run obtain payloadType payloadPs consumes1 lPayload st1 pathPs lPath st2
      headerPs produces2 lHeader st3 queryPs lQuery st4 where
    payload: "payloadStructures c r payloadType pth st = (payloadPs, consumes1, lPayload, st1)" and
    path: "pathStructures c r pth st1 = (pathPs, lPath, st2)" and
    header: "headerStructures c s r pth (userDefined (s_produces s) (rd_produces r) (Some [])) st2 =
       (headerPs, produces2, lHeader, st3)" and
    query: "locationStructures c (rd_queryParams r) ''query'' ''query'' pth st3 = (queryPs, lQuery, st4)" and
    params: "op_parameters out = Some (headerPs @ pathPs @ queryPs @ payloadPs)"
    by (rule buildOut_Inr)
  have inHeader: "\<forall>p\<in>set headerPs. p_in p = ''header''"
  proof -
    from header obtain items where
      loc: "locationStructures c (rd_headerParams r) ''header'' ''headers'' pth st2 = (items, lHeader, st3)" and
      kept: "(headerPs, produces2) =
        (if s_acceptToProduce s
         then acceptFilter items (userDefined (s_produces s) (rd_produces r) (Some []))
         else (items, userDefined (s_produces s) (rd_produces r) (Some [])))"
      by (rule headerStructures_eq)
    from located loc have "\<forall>p\<in>set items. p_in p = ''header''" by (rule locationStructures_in)
    moreover from kept have "set headerPs \<subseteq> set items"
      by (auto simp: acceptFilter_eq split: if_splits)
    ultimately show ?thesis by blast
  qed
  have inPath: "\<forall>p\<in>set pathPs. p_in p = ''path''"
  proof -
    from path obtain items l0 where
      loc: "locationStructures c (rd_pathParams r) ''path'' ''params'' pth st1 = (items, l0, st2)" and
      ps: "pathPs = map (\<lambda>item. fst (inferRequired pth item)) items"
      by (rule pathStructures_eq)
    from located loc have "\<forall>p\<in>set items. p_in p = ''path''" by (rule locationStructures_in)
    with ps show ?thesis by (simp add: inferRequired_in)
  qed
  from located query have inQuery: "\<forall>p\<in>set queryPs. p_in p = ''query''"
    by (rule locationStructures_in)
  from located payload have inPayload: "\<forall>p\<in>set payloadPs. p_in p = ''body'' \<or> p_in p = ''formData''"
    by (rule payloadStructures_in)
  from params have pruned: "op_parameters (deleteEmptyProperties out) =
      (if headerPs @ pathPs @ queryPs @ payloadPs = [] then None
       else Some (headerPs @ pathPs @ queryPs @ payloadPs))"
    by (simp add: deleteEmptyProperties_def pruneEmpty_def)
  have "headerPs = fst (headerStructures c s r pth (userDefined (s_produces s) (rd_produces r) (Some [])) st2)"
    and "pathPs = fst (pathStructures c r pth st1)"
    and "queryPs = fst (locationStructures c (rd_queryParams r) ''query'' ''query'' pth st3)"
    and "payloadPs = fst (payloadStructures c r payloadType pth st)"
    by (simp_all add: header path query payload)
  with params pruned inHeader inPath inQuery inPayload show ?thesis by blast
qed

lemma demoCollab_located:
  "fromProperties demoCollab tree loc = Some ps \<Longrightarrow> \<forall>p\<in>set ps. p_in p = loc"
  by (auto simp: demoCollab_def demoParam_def split: if_splits)

theorem parameters_in_fixed_order_witness:
  "buildOut demoCollab demoSettings (fst (normalizeRoute demoCollab fullRoute)) 0 =
     Inr (''/item/:id'', ''post'', demoOut ''POST/item/:id'' fullParams, [], 4) \<and>
   op_parameters (demoOut ''POST/item/:id'' fullParams) = Some fullParams \<and>
   map p_in fullParams = [''header'', ''path'', ''query'', ''body''] \<and>
   (\<exists>hs ps qs bs.
      op_parameters (demoOut ''POST/item/:id'' fullParams) = Some (hs @ ps @ qs @ bs) \<and>
      (\<forall>p\<in>set hs. p_in p = ''header'') \<and>
      (\<forall>p\<in>set ps. p_in p = ''path'') \<and>
      (\<forall>p\<in>set qs. p_in p = ''query'') \<and>
      (\<forall>p\<in>set bs. p_in p = ''body'' \<or> p_in p = ''formData''))"
proof -
  have run: "buildOut demoCollab demoSettings (fst (normalizeRoute demoCollab fullRoute)) 0 =
     Inr (''/item/:id'', ''post'', demoOut ''POST/item/:id'' fullParams, [], 4)"
    by code_simp
  have located: "\<forall>tree loc ps. fromProperties demoCollab tree loc = Some ps \<longrightarrow> (\<forall>p\<in>set ps. p_in p = loc)"
    using demoCollab_located by blast
  have params: "op_parameters (demoOut ''POST/item/:id'' fullParams) = Some fullParams"
    by (simp add: demoOut_def)
  have labels: "map p_in fullParams = [''header'', ''path'', ''query'', ''body'']"
    by (simp add: fullParams_def demoParam_def)
  obtain hs ps qs bs where
    "op_parameters (demoOut ''POST/item/:id'' fullParams) = Some (hs @ ps @ qs @ bs)"
    "\<forall>p\<in>set hs. p_in p = ''header''"
    "\<forall>p\<in>set ps. p_in p = ''path''"
    "\<forall>p\<in>set qs. p_in p = ''query''"
    "\<forall>p\<in>set bs. p_in p = ''body'' \<or> p_in p = ''formData''"
    using parameters_in_fixed_order [OF run located] by blast
  then have "\<exists>hs ps qs bs.
      op_parameters (demoOut ''POST/item/:id'' fullParams) = Some (hs @ ps @ qs @ bs) \<and>
      (\<forall>p\<in>set hs. p_in p = ''header'') \<and>
      (\<forall>p\<in>set ps. p_in p = ''path'') \<and>
      (\<forall>p\<in>set qs. p_in p = ''query'') \<and>
      (\<forall>p\<in>set bs. p_in p = ''body'' \<or> p_in p = ''formData'')"
    by blast
  with run params labels show ?thesis by (intro conjI)
qed

text \<open>
  C7. When the parameter list assembled for a route holds a header parameter whose name
  is \<^verbatim>\<open>content-type\<close> in any case, the operation has no \<^verbatim>\<open>consumes\<close>, before and
  after pruning, whatever the payload encoding, the file detection, the settings or the
  route say.
\<close>

theorem content_type_header_removes_consumes:
  assumes "buildOut c s r st = Inr (pth, m, out, l, st')"
    and "op_parameters out = Some params"
    and "p \<in> set params"
    and "p_in p = ''header''"
    and "toLowerCase (p_name p) = ''content-type''"
  shows "op_consumes out = None \<and> op_consumes (deleteEmptyProperties out) = None"
proof -
  from assms(1) obtain consumes1 headerPs pathPs queryPs payloadPs where
    params: "op_parameters out = Some (headerPs @ pathPs @ queryPs @ payloadPs)" and
    cons: "op_consumes out =
       (if hasContentTypeHeader (headerPs @ pathPs @ queryPs @ payloadPs) then None
        else userDefined (s_consumes s) (rd_consumes r)
               (if hasFileType c r then Some [''multipart/form-data''] else consumes1))"
    by (rule buildOut_Inr)
  from params assms(2) have "params = headerPs @ pathPs @ queryPs @ payloadPs" by simp
  with assms(3-5) have "hasContentTypeHeader (headerPs @ pathPs @ queryPs @ payloadPs)"
    unfolding hasContentTypeHeader_iff by blast
  with cons have "op_consumes out = None" by simp
  then show ?thesis by (simp add: deleteEmptyProperties_def pruneEmpty_def)
qed

theorem content_type_header_removes_consumes_witness:
  "buildOut demoCollab demoSettings (fst (normalizeRoute demoCollab formRoute)) 0 =
     Inr (''/item/:id'', ''post'',
          (demoOut ''POST/item/:id'' formParams)\<lparr>op_consumes := None\<rparr>, [], 4) \<and>
   op_parameters ((demoOut ''POST/item/:id'' formParams)\<lparr>op_consumes := None\<rparr>) = Some formParams \<and>
   demoParam ''header'' (''Content-Type'', JoiString) \<in> set formParams \<and>
   p_in (demoParam ''header'' (''Content-Type'', JoiString)) = ''header'' \<and>
   toLowerCase (p_name (demoParam ''header'' (''Content-Type'', JoiString))) = ''content-type'' \<and>
   op_consumes ((demoOut ''POST/item/:id'' formParams)\<lparr>op_consumes := None\<rparr>) = None \<and>
   op_consumes (deleteEmptyProperties
     ((demoOut ''POST/item/:id'' formParams)\<lparr>op_consumes := None\<rparr>)) = None"
proof -
  have run: "buildOut demoCollab demoSettings (fst (normalizeRoute demoCollab formRoute)) 0 =
     Inr (''/item/:id'', ''post'',
          (demoOut ''POST/item/:id'' formParams)\<lparr>op_consumes := None\<rparr>, [], 4)"
    by code_simp
  have params: "op_parameters ((demoOut ''POST/item/:id'' formParams)\<lparr>op_consumes := None\<rparr>) =
      Some formParams"
    by (simp add: demoOut_def)
  have member: "demoParam ''header'' (''Content-Type'', JoiString) \<in> set formParams"
    by (simp add: formParams_def)
  have loc: "p_in (demoParam ''header'' (''Content-Type'', JoiString)) = ''header''"
    by (simp add: demoParam_def)
  have name: "toLowerCase (p_name (demoParam ''header'' (''Content-Type'', JoiString))) = ''content-type''"
    by code_simp
  from content_type_header_removes_consumes [OF run params member loc name]
  show ?thesis using run params member loc name by (intro conjI) simp_all
qed

text \<open>
  C9. With \<^verbatim>\<open>acceptToProduce\<close> set, the header parameters of the operation are those
  the header schema gives without the ones named \<^verbatim>\<open>accept\<close> (in any case) that have an
  enum; an \<^verbatim>\<open>accept\<close> parameter without an enum stays. When such a parameter was
  removed, \<^verbatim>\<open>produces\<close> is the enum of the last one removed, reordered by
  \<open>sortFirstItem\<close>: the default value first, if there is one, and the other values in
  their order. The emitted operation has this value unless it is the empty list.
\<close>

theorem accept_header_to_produces:
  assumes run: "buildOut c s r st = Inr (pth, m, out, l, st')"
    and flag: "s_acceptToProduce s"
  shows "\<exists>st2 headers lHeader st3 others.
           locationStructures c (rd_headerParams r) ''header'' ''headers'' pth st2 =
             (headers, lHeader, st3) \<and>
           op_parameters out = Some (filter (\<lambda>h. \<not> acceptWithEnum h) headers @ others) \<and>
           (\<forall>h\<in>set headers. toLowerCase (p_name h) = ''accept'' \<and> p_enum h = None \<longrightarrow>
              h \<in> set (filter (\<lambda>h. \<not> acceptWithEnum h) headers)) \<and>
           (filter acceptWithEnum headers \<noteq> [] \<longrightarrow>
              (let h = last (filter acceptWithEnum headers);
                   v = sortFirstItem (the (p_enum h)) (p_default h)
               in toLowerCase (p_name h) = ''accept'' \<and> p_enum h \<noteq> None \<and>
                  v = (case p_default h of None \<Rightarrow> the (p_enum h)
                       | Some d \<Rightarrow> d # filter (\<lambda>item. item \<noteq> d) (the (p_enum h))) \<and>
                  op_produces out = Some v \<and>
                  op_produces (deleteEmptyProperties out) = (if v = [] then None else Some v)))"
proof -
  from run obtain pathPs st2 headerPs produces2 lHeader st3 queryPs payloadPs where
    header: "headerStructures c s r pth (userDefined (s_produces s) (rd_produces r) (Some [])) st2 =
       (headerPs, produces2, lHeader, st3)" and
    params: "op_parameters out = Some (headerPs @ pathPs @ queryPs @ payloadPs)" and
    produces: "op_produces out = produces2"
    by (rule buildOut_Inr)
  from header obtain headers where
    loc: "locationStructures c (rd_headerParams r) ''header'' ''headers'' pth st2 =
       (headers, lHeader, st3)" and
    kept: "(headerPs, produces2) =
        (if s_acceptToProduce s
         then acceptFilter headers (userDefined (s_produces s) (rd_produces r) (Some []))
         else (headers, userDefined (s_produces s) (rd_produces r) (Some [])))"
    by (rule headerStructures_eq)
  from kept flag have hs: "headerPs = filter (\<lambda>h. \<not> acceptWithEnum h) headers"
    and pr: "produces2 =
      (case filter acceptWithEnum headers of
         [] \<Rightarrow> userDefined (s_produces s) (rd_produces r) (Some [])
       | h # hs \<Rightarrow> Some (sortFirstItem (the (p_enum (last (h # hs)))) (p_default (last (h # hs)))))"
    by (simp_all add: acceptFilter_eq)
  have stays: "\<forall>h\<in>set headers. toLowerCase (p_name h) = ''accept'' \<and> p_enum h = None \<longrightarrow>
      h \<in> set (filter (\<lambda>h. \<not> acceptWithEnum h) headers)"
    by (simp add: acceptWithEnum_def truthyObj_def)
  have set_produces: "filter acceptWithEnum headers \<noteq> [] \<longrightarrow>
      (let h = last (filter acceptWithEnum headers);
           v = sortFirstItem (the (p_enum h)) (p_default h)
       in toLowerCase (p_name h) = ''accept'' \<and> p_enum h \<noteq> None \<and>
          v = (case p_default h of None \<Rightarrow> the (p_enum h)
               | Some d \<Rightarrow> d # filter (\<lambda>item. item \<noteq> d) (the (p_enum h))) \<and>
          op_produces out = Some v \<and>
          op_produces (deleteEmptyProperties out) = (if v = [] then None else Some v))"
  proof
    assume nonempty: "filter acceptWithEnum headers \<noteq> []"
    then have "last (filter acceptWithEnum headers) \<in> set (filter acceptWithEnum headers)"
      by (rule last_in_set)
    then have acc: "acceptWithEnum (last (filter acceptWithEnum headers))" by simp
    from nonempty pr produces have out: "op_produces out =
        Some (sortFirstItem (the (p_enum (last (filter acceptWithEnum headers))))
                (p_default (last (filter acceptWithEnum headers))))"
      by (simp split: list.splits)
    have sorted: "sortFirstItem e d =
        (case d of None \<Rightarrow> e | Some x \<Rightarrow> x # filter (\<lambda>item. item \<noteq> x) e)" for e d
      by (cases d) simp_all
    from acc out show "let h = last (filter acceptWithEnum headers);
           v = sortFirstItem (the (p_enum h)) (p_default h)
       in toLowerCase (p_name h) = ''accept'' \<and> p_enum h \<noteq> None \<and>
          v = (case p_default h of None \<Rightarrow> the (p_enum h)
               | Some d \<Rightarrow> d # filter (\<lambda>item. item \<noteq> d) (the (p_enum h))) \<and>
          op_produces out = Some v \<and>
          op_produces (deleteEmptyProperties out) = (if v = [] then None else Some v)"
      by (simp add: Let_def acceptWithEnum_def truthyObj_def sorted
            deleteEmptyProperties_def pruneEmpty_def)
  qed
  from params hs have "op_parameters out =
      Some (filter (\<lambda>h. \<not> acceptWithEnum h) headers @ (pathPs @ queryPs @ payloadPs))"
    by simp
  with loc stays set_produces show ?thesis by blast
qed

theorem accept_header_to_produces_witness:
  "buildOut demoCollab acceptSettings (fst (normalizeRoute demoCollab acceptRoute)) 0 =
     Inr (''/a'', ''get'', acceptOut, [], 1) \<and>
   s_acceptToProduce acceptSettings \<and>
   locationStructures demoCollab (rd_headerParams (fst (normalizeRoute demoCollab acceptRoute)))
       ''header'' ''headers'' ''/a'' 0 =
     ([demoParam ''header'' (''Accept'', JoiValid [''a'', ''b''] (Some ''b'')),
       demoParam ''header'' (''accept'', JoiString)], [], 1) \<and>
   op_parameters acceptOut = Some [demoParam ''header'' (''accept'', JoiString)] \<and>
   op_produces acceptOut = Some [''b'', ''a''] \<and>
   op_produces (deleteEmptyProperties acceptOut) = Some [''b'', ''a''] \<and>
   (\<exists>headers others.
      op_parameters acceptOut = Some (filter (\<lambda>h. \<not> acceptWithEnum h) headers @ others))"
proof -
  have run: "buildOut demoCollab acceptSettings (fst (normalizeRoute demoCollab acceptRoute)) 0 =
     Inr (''/a'', ''get'', acceptOut, [], 1)"
    by code_simp
  have flag: "s_acceptToProduce acceptSettings"
    by (simp add: acceptSettings_def)
  have headers: "locationStructures demoCollab
       (rd_headerParams (fst (normalizeRoute demoCollab acceptRoute)))
       ''header'' ''headers'' ''/a'' 0 =
     ([demoParam ''header'' (''Accept'', JoiValid [''a'', ''b''] (Some ''b'')),
       demoParam ''header'' (''accept'', JoiString)], [], 1)"
    by code_simp
  have params: "op_parameters acceptOut = Some [demoParam ''header'' (''accept'', JoiString)]"
    by (simp add: acceptOut_def demoOut_def acceptParams_def)
  have produces: "op_produces acceptOut = Some [''b'', ''a'']"
    by (simp add: acceptOut_def)
  have emitted: "op_produces (deleteEmptyProperties acceptOut) = Some [''b'', ''a'']"
    by (simp add: acceptOut_def deleteEmptyProperties_def pruneEmpty_def)
  from accept_header_to_produces [OF run flag]
  have "\<exists>headers others.
      op_parameters acceptOut = Some (filter (\<lambda>h. \<not> acceptWithEnum h) headers @ others)"
    by blast
  with run flag headers params produces emitted show ?thesis by (intro conjI)
qed

subsection \<open>Path parameters\<close>

lemma matchesHere_iff:
  "matchesHere name str \<longleftrightarrow>
     (\<exists>post. str = ''/:'' @ name @ post \<and> (post = [] \<or> hd post = CHR ''/''))"
proof
  assume "matchesHere name str"
  then obtain post where str: "str = (''/:'' @ name) @ post"
    and follow: "case drop (length (''/:'' @ name)) str of [] \<Rightarrow> True | d # ds \<Rightarrow> d = CHR ''/''"
    unfolding matchesHere_def prefix_def by blast
  from str have "drop (length (''/:'' @ name)) str = post" by simp
  with follow have "post = [] \<or> hd post = CHR ''/''"
    by (cases post) simp_all
  with str show "\<exists>post. str = ''/:'' @ name @ post \<and> (post = [] \<or> hd post = CHR ''/'')"
    by auto
next
  assume "\<exists>post. str = ''/:'' @ name @ post \<and> (post = [] \<or> hd post = CHR ''/'')"
  then obtain post where str: "str = (''/:'' @ name) @ post"
    and follow: "post = [] \<or> hd post = CHR ''/''"
    by auto
  from str have "prefix (''/:'' @ name) str" unfolding prefix_def by blast
  moreover from str have "drop (length (''/:'' @ name)) str = post" by simp
  with follow have "case drop (length (''/:'' @ name)) str of [] \<Rightarrow> True | d # ds \<Rightarrow> d = CHR ''/''"
    by (cases post) simp_all
  ultimately show "matchesHere name str" unfolding matchesHere_def by blast
qed

lemma regexpTest_split:
  "regexpTest name str \<longleftrightarrow> (\<exists>pre rest. str = pre @ rest \<and> matchesHere name rest)"
proof (induction str)
  case Nil
  show ?case by simp
next
  case (Cons d ds)
  show ?case
  proof
    assume "regexpTest name (d # ds)"
    then consider "matchesHere name (d # ds)" | "regexpTest name ds" by auto
    then show "\<exists>pre rest. d # ds = pre @ rest \<and> matchesHere name rest"
    proof cases
      case 1
      then have "d # ds = [] @ (d # ds) \<and> matchesHere name (d # ds)" by simp
      then show ?thesis by blast
    next
      case 2
      with Cons.IH obtain pre rest where "ds = pre @ rest" "matchesHere name rest" by blast
      then have "d # ds = (d # pre) @ rest \<and> matchesHere name rest" by simp
      then show ?thesis by blast
    qed
  next
    assume "\<exists>pre rest. d # ds = pre @ rest \<and> matchesHere name rest"
    then obtain pre rest where split: "d # ds = pre @ rest" and here: "matchesHere name rest"
      by blast
    show "regexpTest name (d # ds)"
    proof (cases pre)
      case Nil
      with split have "rest = d # ds" by simp
      with here show ?thesis by simp
    next
      case (Cons e es)
      with split have "ds = es @ rest" by simp
      with here Cons.IH have "regexpTest name ds" by blast
      then show ?thesis by simp
    qed
  qed
qed

lemma regexpTest_iff:
  "regexpTest name pth \<longleftrightarrow>
     (\<exists>pre post. pth = pre @ ''/:'' @ name @ post \<and> (post = [] \<or> hd post = CHR ''/''))"
  unfolding regexpTest_split matchesHere_iff by blast

lemma inferRequired_undefined:
  assumes "p_required item = None"
  shows "inferRequired pth item =
     (if regexpTest (p_name item) pth then (item\<lparr>p_required := Some True\<rparr>, [])
      else (item, [warnOptional pth (p_name item)]))"
  using assms by (simp add: inferRequired_def Let_def truthyBool_def)

text \<open>
  C1, as the code has it. The placeholder the code looks for is the colon form: for a
  route whose path schema has children, every path parameter the schema gives is emitted
  in its place in the parameter list, and one whose \<^verbatim>\<open>required\<close> the schema left
  undefined (its name free of pattern characters) has \<^verbatim>\<open>required: true\<close> when the
  resolved path holds \<^verbatim>\<open>/:name\<close> followed by the end of the path or by \<^verbatim>\<open>/\<close>;
  otherwise, as with the optional marker in \<^verbatim>\<open>/item/:id?\<close>, it is emitted unchanged,
  without \<^verbatim>\<open>required\<close>, and the warning is logged.
\<close>

theorem path_required_from_colon_placeholder:
  assumes run: "buildOut c s r st = Inr (pth, m, out, l, st')"
    and children: "hasJoiChildren c (rd_pathParams r)"
  shows "\<exists>st1 items st2 before after.
           getSwaggerStructures c (rd_pathParams r) ''path'' False False st1 = (items, st2) \<and>
           op_parameters out =
             Some (before @ map (\<lambda>item. fst (inferRequired pth item)) items @ after) \<and>
           (\<forall>item\<in>set items. p_required item = None \<and> literalName (p_name item) \<longrightarrow>
              (if \<exists>pre post. pth = pre @ ''/:'' @ p_name item @ post \<and>
                    (post = [] \<or> hd post = CHR ''/'')
               then fst (inferRequired pth item) = item\<lparr>p_required := Some True\<rparr>
               else fst (inferRequired pth item) = item \<and>
                    warnOptional pth (p_name item) \<in> set l))"
proof -
  from run obtain lPayload st1 pathPs lPath st2 headerPs lHeader queryPs lQuery payloadPs where
    path: "pathStructures c r pth st1 = (pathPs, lPath, st2)" and
    params: "op_parameters out = Some (headerPs @ pathPs @ queryPs @ payloadPs)" and
    log: "l = lPayload @ lPath @ lHeader @ lQuery"
    by (rule buildOut_Inr)
  from path obtain items l0 where
    loc: "locationStructures c (rd_pathParams r) ''path'' ''params'' pth st1 = (items, l0, st2)" and
    ps: "pathPs = map (\<lambda>item. fst (inferRequired pth item)) items" and
    lp: "lPath = l0 @ concat (map (\<lambda>item. snd (inferRequired pth item)) items)"
    by (rule pathStructures_eq)
  from loc children
  have structures: "getSwaggerStructures c (rd_pathParams r) ''path'' False False st1 = (items, st2)"
    by (simp add: locationStructures_def split_def prod_eq_iff Let_def)
  from params ps have list: "op_parameters out =
      Some (headerPs @ map (\<lambda>item. fst (inferRequired pth item)) items @ (queryPs @ payloadPs))"
    by simp
  have each: "\<forall>item\<in>set items. p_required item = None \<and> literalName (p_name item) \<longrightarrow>
      (if \<exists>pre post. pth = pre @ ''/:'' @ p_name item @ post \<and> (post = [] \<or> hd post = CHR ''/'')
       then fst (inferRequired pth item) = item\<lparr>p_required := Some True\<rparr>
       else fst (inferRequired pth item) = item \<and> warnOptional pth (p_name item) \<in> set l)"
  proof (intro ballI impI)
    fix item
    assume member: "item \<in> set items"
      and "p_required item = None \<and> literalName (p_name item)"
    then have undefined: "p_required item = None" by simp
    show "if \<exists>pre post. pth = pre @ ''/:'' @ p_name item @ post \<and> (post = [] \<or> hd post = CHR ''/'')
       then fst (inferRequired pth item) = item\<lparr>p_required := Some True\<rparr>
       else fst (inferRequired pth item) = item \<and> warnOptional pth (p_name item) \<in> set l"
    proof (cases "regexpTest (p_name item) pth")
      case True
      then have placeholder: "\<exists>pre post. pth = pre @ ''/:'' @ p_name item @ post \<and>
          (post = [] \<or> hd post = CHR ''/'')"
        unfolding regexpTest_iff .
      from True undefined have "fst (inferRequired pth item) = item\<lparr>p_required := Some True\<rparr>"
        by (simp add: inferRequired_undefined)
      then show ?thesis by (simp only: if_P [OF placeholder])
    next
      case False
      with undefined have same: "fst (inferRequired pth item) = item"
        and warn: "snd (inferRequired pth item) = [warnOptional pth (p_name item)]"
        by (simp_all add: inferRequired_undefined)
      from member warn
      have "warnOptional pth (p_name item) \<in> set (concat (map (\<lambda>item. snd (inferRequired pth item)) items))"
        by force
      with lp log have "warnOptional pth (p_name item) \<in> set l" by simp
      moreover from False have "\<not> (\<exists>pre post. pth = pre @ ''/:'' @ p_name item @ post \<and>
          (post = [] \<or> hd post = CHR ''/''))"
        unfolding regexpTest_iff .
      ultimately show ?thesis using same by (simp only: if_False simp_thms)
    qed
  qed
  from structures list each show ?thesis by blast
qed

theorem path_required_from_colon_placeholder_witness:
  "buildOut demoCollab demoSettings (fst (normalizeRoute demoCollab (itemRoute ''/item/:id''))) 0 =
     Inr (''/item/:id'', ''get'', itemOut ''/item/:id'' (Some True), [], 1) \<and>
   buildOut demoCollab demoSettings (fst (normalizeRoute demoCollab (itemRoute ''/item/:id?''))) 0 =
     Inr (''/item/:id?'', ''get'', itemOut ''/item/:id?'' None,
          [warnOptional ''/item/:id?'' ''id''], 1) \<and>
   hasJoiChildren demoCollab (rd_pathParams (fst (normalizeRoute demoCollab (itemRoute ''/item/:id'')))) \<and>
   hasJoiChildren demoCollab (rd_pathParams (fst (normalizeRoute demoCollab (itemRoute ''/item/:id?'')))) \<and>
   p_required (demoParam ''path'' (''id'', JoiString)) = None \<and>
   literalName ''id'' \<and>
   regexpTest ''id'' ''/item/:id'' \<and>
   \<not> regexpTest ''id'' ''/item/:id?'' \<and>
   emittedRequired (build demoCollab demoSettings [itemRoute ''/item/:id''])
     ''/item/:id'' ''get'' = Some [(''id'', Some True)] \<and>
   emittedRequired (build demoCollab demoSettings [itemRoute ''/item/:id?''])
     ''/item/:id?'' ''get'' = Some [(''id'', None)] \<and>
   fst (build demoCollab demoSettings [itemRoute ''/item/:id?'']) =
     [warnOptional ''/item/:id?'' ''id''] \<and>
   (\<exists>items before after.
      op_parameters (itemOut ''/item/:id'' (Some True)) =
        Some (before @ map (\<lambda>item. fst (inferRequired ''/item/:id'' item)) items @ after)) \<and>
   (\<exists>items before after.
      op_parameters (itemOut ''/item/:id?'' None) =
        Some (before @ map (\<lambda>item. fst (inferRequired ''/item/:id?'' item)) items @ after))"
proof -
  have run: "buildOut demoCollab demoSettings
       (fst (normalizeRoute demoCollab (itemRoute ''/item/:id''))) 0 =
     Inr (''/item/:id'', ''get'', itemOut ''/item/:id'' (Some True), [], 1)"
    by code_simp
  have runOpt: "buildOut demoCollab demoSettings
       (fst (normalizeRoute demoCollab (itemRoute ''/item/:id?''))) 0 =
     Inr (''/item/:id?'', ''get'', itemOut ''/item/:id?'' None,
          [warnOptional ''/item/:id?'' ''id''], 1)"
    by code_simp
  have children: "hasJoiChildren demoCollab
       (rd_pathParams (fst (normalizeRoute demoCollab (itemRoute ''/item/:id''))))"
    by code_simp
  have childrenOpt: "hasJoiChildren demoCollab
       (rd_pathParams (fst (normalizeRoute demoCollab (itemRoute ''/item/:id?''))))"
    by code_simp
  have undefined: "p_required (demoParam ''path'' (''id'', JoiString)) = None"
    by (simp add: demoParam_def)
  have literal: "literalName ''id''"
    by code_simp
  have placeholder: "regexpTest ''id'' ''/item/:id''"
    by code_simp
  have optional: "\<not> regexpTest ''id'' ''/item/:id?''"
    by code_simp
  have emitted: "emittedRequired (build demoCollab demoSettings [itemRoute ''/item/:id''])
     ''/item/:id'' ''get'' = Some [(''id'', Some True)]"
    by code_simp
  have emittedOpt: "emittedRequired (build demoCollab demoSettings [itemRoute ''/item/:id?''])
     ''/item/:id?'' ''get'' = Some [(''id'', None)]"
    by code_simp
  have logged: "fst (build demoCollab demoSettings [itemRoute ''/item/:id?'']) =
     [warnOptional ''/item/:id?'' ''id'']"
    by code_simp
  from path_required_from_colon_placeholder [OF run children]
  have inst: "\<exists>items before after.
      op_parameters (itemOut ''/item/:id'' (Some True)) =
        Some (before @ map (\<lambda>item. fst (inferRequired ''/item/:id'' item)) items @ after)"
    by blast
  from path_required_from_colon_placeholder [OF runOpt childrenOpt]
  have instOpt: "\<exists>items before after.
      op_parameters (itemOut ''/item/:id?'' None) =
        Some (before @ map (\<lambda>item. fst (inferRequired ''/item/:id?'' item)) items @ after)"
    by blast
  from run runOpt children childrenOpt undefined literal placeholder optional emitted
    emittedOpt logged inst instOpt
  show ?thesis by (intro conjI)
qed

text \<open>
  C1 as stated fails: with the brace form \<^verbatim>\<open>/item/{id}\<close> of the placeholder and a
  path schema with the field \<^verbatim>\<open>id\<close>, the emitted parameter has no \<^verbatim>\<open>required\<close> and
  the warning is logged.
\<close>

theorem brace_placeholder_not_required:
  "emittedRequired (build demoCollab demoSettings [itemRoute ''/item/{id}''])
     ''/item/{id}'' ''get'' = Some [(''id'', None)] \<and>
   fst (build demoCollab demoSettings [itemRoute ''/item/{id}'']) =
     [warnOptional ''/item/{id}'' ''id'']"
  by code_simp

subsection \<open>The paths object\<close>

lemma pathObjAt_putOperation:
  "pathObjAt (putOperation pathObj pth m out) pth' m' =
     (if pth' = pth \<and> m' = m then Some (deleteEmptyProperties out) else pathObjAt pathObj pth' m')"
  by (simp add: pathObjAt_def putOperation_def Let_def split: option.splits)

lemma buildOut_key:
  assumes "buildOut c s r st = Inr (pth, m, out, l, st')"
  shows "routeKey c s r = (pth, m)"
  using assms by (rule buildOut_Inr) (simp add: routeKey_def)

lemma forEachRoute_Cons_Inr:
  assumes "forEachRoute c s (r # rs) pathObj st = (l, Inr (pathObj', st'))"
  obtains pth m out l1 st1 l2 where
    "buildOut c s r st = Inr (pth, m, out, l1, st1)"
    "forEachRoute c s rs (putOperation pathObj pth m out) st1 = (l2, Inr (pathObj', st'))"
    "l = l1 @ l2"
  using assms
  by (auto simp: Let_def split: sum.splits prod.splits)

lemma forEachRoute_append:
  assumes "forEachRoute c s xs pathObj st = (l1, Inr (pathObj1, st1))"
  shows "forEachRoute c s (xs @ ys) pathObj st =
     (l1 @ fst (forEachRoute c s ys pathObj1 st1), snd (forEachRoute c s ys pathObj1 st1))"
  using assms
proof (induction xs arbitrary: pathObj st l1)
  case Nil
  then show ?case by simp
next
  case (Cons x xs)
  from Cons.prems obtain pth m out la sta lb where
    first: "buildOut c s x st = Inr (pth, m, out, la, sta)" and
    others: "forEachRoute c s xs (putOperation pathObj pth m out) sta = (lb, Inr (pathObj1, st1))" and
    log: "l1 = la @ lb"
    by (rule forEachRoute_Cons_Inr)
  from others have "forEachRoute c s (xs @ ys) (putOperation pathObj pth m out) sta =
     (lb @ fst (forEachRoute c s ys pathObj1 st1), snd (forEachRoute c s ys pathObj1 st1))"
    by (rule Cons.IH)
  with first log show ?case by (simp add: Let_def)
qed

lemma forEachRoute_other_keys:
  assumes "forEachRoute c s rs pathObj st = (l, Inr (pathObj', st'))"
    and "\<forall>q\<in>set rs. routeKey c s q \<noteq> (pth, m)"
  shows "pathObjAt pathObj' pth m = pathObjAt pathObj pth m"
  using assms
proof (induction rs arbitrary: pathObj st l)
  case Nil
  then show ?case by simp
next
  case (Cons x xs)
  from Cons.prems(1) obtain pth1 m1 out la sta lb where
    first: "buildOut c s x st = Inr (pth1, m1, out, la, sta)" and
    others: "forEachRoute c s xs (putOperation pathObj pth1 m1 out) sta = (lb, Inr (pathObj', st'))"
    by (rule forEachRoute_Cons_Inr)
  from first have "routeKey c s x = (pth1, m1)" by (rule buildOut_key)
  with Cons.prems(2) have other: "(pth1, m1) \<noteq> (pth, m)" by auto
  from Cons.prems(2) have "\<forall>q\<in>set xs. routeKey c s q \<noteq> (pth, m)" by simp
  with others have "pathObjAt pathObj' pth m = pathObjAt (putOperation pathObj pth1 m1 out) pth m"
    by (rule Cons.IH)
  also from other have "\<dots> = pathObjAt pathObj pth m"
    by (auto simp: pathObjAt_putOperation)
  finally show ?case .
qed

lemma forEachRoute_written:
  assumes "forEachRoute c s rs pathObj st = (l, Inr (pathObj', st'))"
    and "r \<in> set rs"
  shows "pathObjAt pathObj' (fst (routeKey c s r)) (snd (routeKey c s r)) \<noteq> None"
  using assms
proof (induction rs arbitrary: pathObj st l r)
  case Nil
  then show ?case by simp
next
  case (Cons x xs)
  from Cons.prems(1) obtain pth1 m1 out la sta lb where
    first: "buildOut c s x st = Inr (pth1, m1, out, la, sta)" and
    others: "forEachRoute c s xs (putOperation pathObj pth1 m1 out) sta = (lb, Inr (pathObj', st'))"
    by (rule forEachRoute_Cons_Inr)
  show ?case
  proof (cases "r \<in> set xs")
    case True
    with others show ?thesis by (rule Cons.IH)
  next
    case False
    with Cons.prems(2) have rx: "r = x" by simp
    with first have key: "routeKey c s r = (pth1, m1)" by (simp add: buildOut_key)
    show ?thesis
    proof (cases "\<forall>q\<in>set xs. routeKey c s q \<noteq> (pth1, m1)")
      case True
      with others have "pathObjAt pathObj' pth1 m1 = pathObjAt (putOperation pathObj pth1 m1 out) pth1 m1"
        by (rule forEachRoute_other_keys)
      with key show ?thesis by (simp add: pathObjAt_putOperation)
    next
      case False
      then obtain q where q: "q \<in> set xs" and kq: "routeKey c s q = (pth1, m1)" by blast
      from others q have "pathObjAt pathObj' (fst (routeKey c s q)) (snd (routeKey c s q)) \<noteq> None"
        by (rule Cons.IH)
      with kq key show ?thesis by simp
    qed
  qed
qed

lemma forEachRoute_independent:
  "fst (forEachRoute c s rs pathObjX st) = fst (forEachRoute c s rs pathObj st) \<and>
   isl (snd (forEachRoute c s rs pathObjX st)) = isl (snd (forEachRoute c s rs pathObj st))"
proof (induction rs arbitrary: pathObj pathObjX st)
  case Nil
  show ?case by simp
next
  case (Cons x xs)
  show ?case
  proof (cases "buildOut c s x st")
    case (Inl e)
    then show ?thesis by simp
  next
    case (Inr result)
    obtain pth m out l st1 where "result = (pth, m, out, l, st1)"
      by (rule prod_cases5)
    with Inr Cons.IH [of "putOperation pathObjX pth m out" st1 "putOperation pathObj pth m out"]
    show ?thesis by (simp add: Let_def split_def)
  qed
qed

text \<open>
  C10. When a route has the path key and the lower-case method of a route that came
  earlier in the same call, and no later route has them, the paths object, which held an
  operation under these keys when the later route was reached, ends up holding the pruned
  operation of the later route there. The run logs the diagnostics of the routes'
  own callbacks and nothing else, and it does not raise; what it logs and whether it
  raises are the same whatever the paths object holds.
\<close>

theorem later_route_replaces_earlier:
  assumes before: "forEachRoute c s (pre @ r1 # mid) pathObj st = (l1, Inr (pathObj1, st1))"
    and later: "buildOut c s r2 st1 = Inr (pth, m, out2, l2, st2)"
    and after: "forEachRoute c s post (putOperation pathObj1 pth m out2) st2 =
                  (l3, Inr (pathObj3, st3))"
    and same: "routeKey c s r1 = routeKey c s r2"
    and last: "\<forall>q\<in>set post. routeKey c s q \<noteq> routeKey c s r2"
  shows "forEachRoute c s (pre @ r1 # mid @ r2 # post) pathObj st =
           (l1 @ l2 @ l3, Inr (pathObj3, st3)) \<and>
         pathObjAt pathObj1 pth m \<noteq> None \<and>
         pathObjAt pathObj3 pth m = Some (deleteEmptyProperties out2) \<and>
         (\<forall>pathObjX.
            fst (forEachRoute c s (pre @ r1 # mid @ r2 # post) pathObjX st) = l1 @ l2 @ l3 \<and>
            \<not> isl (snd (forEachRoute c s (pre @ r1 # mid @ r2 # post) pathObjX st)))"
proof -
  from later have key2: "routeKey c s r2 = (pth, m)" by (rule buildOut_key)
  from later after have tail: "forEachRoute c s (r2 # post) pathObj1 st1 =
      (l2 @ l3, Inr (pathObj3, st3))"
    by (simp add: Let_def)
  from before have "forEachRoute c s ((pre @ r1 # mid) @ r2 # post) pathObj st =
      (l1 @ fst (forEachRoute c s (r2 # post) pathObj1 st1),
       snd (forEachRoute c s (r2 # post) pathObj1 st1))"
    by (rule forEachRoute_append)
  with tail have whole: "forEachRoute c s (pre @ r1 # mid @ r2 # post) pathObj st =
      (l1 @ l2 @ l3, Inr (pathObj3, st3))"
    by simp
  have "r1 \<in> set (pre @ r1 # mid)" by simp
  with before have "pathObjAt pathObj1 (fst (routeKey c s r1)) (snd (routeKey c s r1)) \<noteq> None"
    by (rule forEachRoute_written)
  with same key2 have taken: "pathObjAt pathObj1 pth m \<noteq> None" by simp
  from last key2 have "\<forall>q\<in>set post. routeKey c s q \<noteq> (pth, m)" by simp
  with after have "pathObjAt pathObj3 pth m = pathObjAt (putOperation pathObj1 pth m out2) pth m"
    by (rule forEachRoute_other_keys)
  then have final: "pathObjAt pathObj3 pth m = Some (deleteEmptyProperties out2)"
    by (simp add: pathObjAt_putOperation)
  have indep: "\<forall>pathObjX.
      fst (forEachRoute c s (pre @ r1 # mid @ r2 # post) pathObjX st) = l1 @ l2 @ l3 \<and>
      \<not> isl (snd (forEachRoute c s (pre @ r1 # mid @ r2 # post) pathObjX st))"
  proof
    fix pathObjX
    from forEachRoute_independent [of c s "pre @ r1 # mid @ r2 # post" pathObjX st pathObj] whole
    show "fst (forEachRoute c s (pre @ r1 # mid @ r2 # post) pathObjX st) = l1 @ l2 @ l3 \<and>
      \<not> isl (snd (forEachRoute c s (pre @ r1 # mid @ r2 # post) pathObjX st))"
      by simp
  qed
  from whole taken final indep show ?thesis by (intro conjI)
qed

theorem later_route_replaces_earlier_witness:
  "routeKey demoCollab demoSettings (fst (normalizeRoute demoCollab firstRoute)) =
     routeKey demoCollab demoSettings (fst (normalizeRoute demoCollab secondRoute)) \<and>
   buildOut demoCollab demoSettings (fst (normalizeRoute demoCollab firstRoute)) 0 =
     Inr (''/a'', ''get'', summaryOut ''first'', [], 0) \<and>
   buildOut demoCollab demoSettings (fst (normalizeRoute demoCollab secondRoute)) 0 =
     Inr (''/a'', ''get'', summaryOut ''second'', [], 0) \<and>
   pathObjAt (putOperation Map.empty ''/a'' ''get'' (summaryOut ''first'')) ''/a'' ''get'' =
     Some (deleteEmptyProperties (summaryOut ''first'')) \<and>
   pathObjAt (putOperation (putOperation Map.empty ''/a'' ''get'' (summaryOut ''first''))
       ''/a'' ''get'' (summaryOut ''second'')) ''/a'' ''get'' =
     Some (deleteEmptyProperties (summaryOut ''second'')) \<and>
   fst (forEachRoute demoCollab demoSettings
     [fst (normalizeRoute demoCollab firstRoute), fst (normalizeRoute demoCollab secondRoute)]
     Map.empty 0) = [] \<and>
   \<not> isl (snd (forEachRoute demoCollab demoSettings
     [fst (normalizeRoute demoCollab firstRoute), fst (normalizeRoute demoCollab secondRoute)]
     Map.empty 0)) \<and>
   map_option op_summary
     (emittedOperation (build demoCollab demoSettings [firstRoute, secondRoute]) ''/a'' ''get'') =
     Some (Some ''second'') \<and>
   fst (build demoCollab demoSettings [firstRoute, secondRoute]) = []"
proof -
  have same: "routeKey demoCollab demoSettings (fst (normalizeRoute demoCollab firstRoute)) =
     routeKey demoCollab demoSettings (fst (normalizeRoute demoCollab secondRoute))"
    by code_simp
  have earlier: "buildOut demoCollab demoSettings (fst (normalizeRoute demoCollab firstRoute)) 0 =
     Inr (''/a'', ''get'', summaryOut ''first'', [], 0)"
    by code_simp
  have later: "buildOut demoCollab demoSettings (fst (normalizeRoute demoCollab secondRoute)) 0 =
     Inr (''/a'', ''get'', summaryOut ''second'', [], 0)"
    by code_simp
  from earlier have before: "forEachRoute demoCollab demoSettings
       ([] @ fst (normalizeRoute demoCollab firstRoute) # []) Map.empty 0 =
     ([], Inr (putOperation Map.empty ''/a'' ''get'' (summaryOut ''first''), 0))"
    by simp
  have after: "forEachRoute demoCollab demoSettings []
       (putOperation (putOperation Map.empty ''/a'' ''get'' (summaryOut ''first''))
          ''/a'' ''get'' (summaryOut ''second'')) 0 =
     ([], Inr (putOperation (putOperation Map.empty ''/a'' ''get'' (summaryOut ''first''))
          ''/a'' ''get'' (summaryOut ''second''), 0))"
    by simp
  have last: "\<forall>q\<in>set []. routeKey demoCollab demoSettings q \<noteq>
      routeKey demoCollab demoSettings (fst (normalizeRoute demoCollab secondRoute))"
    by simp
  have first: "pathObjAt (putOperation Map.empty ''/a'' ''get'' (summaryOut ''first'')) ''/a'' ''get'' =
     Some (deleteEmptyProperties (summaryOut ''first''))"
    by (simp add: pathObjAt_putOperation)
  have summary: "map_option op_summary
     (emittedOperation (build demoCollab demoSettings [firstRoute, secondRoute]) ''/a'' ''get'') =
     Some (Some ''second'')"
    by code_simp
  have logged: "fst (build demoCollab demoSettings [firstRoute, secondRoute]) = []"
    by code_simp
  from later_route_replaces_earlier [OF before later after same last] first summary logged
    same earlier later
  show ?thesis by simp
qed

subsection \<open>When build returns a document\<close>

text \<open>
  Whatever the validators of the routes are, \<^verbatim>\<open>build\<close> returns a document when the
  settings give a payload type and no description is an array of lines. (The collaborators
  are functions here and the names of the path parameters are taken to be literal: what the
  collaborators or the \<^verbatim>\<open>RegExp\<close> constructor may throw is outside this statement.)
\<close>

lemma overload_payloadType:
  assumes "truthyStr base"
  shows "\<exists>payloadType. overload truthyStr base priority = Some payloadType"
  using assms by (cases base; cases priority) (simp_all add: overload_def truthyStr_def)

lemma outDescription_returns:
  assumes "\<forall>ls. rd_description r \<noteq> Some (Lines ls)"
  shows "\<exists>descr. outDescription r = Inr descr"
proof (cases "rd_description r")
  case None
  then show ?thesis by (simp add: outDescription_def)
next
  case (Some d)
  with assms show ?thesis by (cases d) (simp_all add: outDescription_def)
qed

lemma buildOut_returns:
  assumes "\<forall>ls. rd_description r \<noteq> Some (Lines ls)" and "truthyStr (s_payloadType s)"
  shows "\<exists>res. buildOut c s r st = Inr res"
proof -
  from assms(1) have "\<exists>descr. outDescription r = Inr descr"
    by (rule outDescription_returns)
  then obtain descr where "outDescription r = Inr descr" ..
  moreover from assms(2)
  have "\<exists>payloadType. overload truthyStr (s_payloadType s) (rd_payloadType r) = Some payloadType"
    by (rule overload_payloadType)
  then obtain payloadType where
    "overload truthyStr (s_payloadType s) (rd_payloadType r) = Some payloadType" ..
  ultimately show ?thesis
    by (simp add: buildOut_def Let_def split_def)
qed

lemma forEachRoute_returns:
  assumes "\<forall>r\<in>set rs. \<forall>ls. rd_description r \<noteq> Some (Lines ls)" and "truthyStr (s_payloadType s)"
  shows "\<exists>res. snd (forEachRoute c s rs pathObj st) = Inr res"
  using assms(1)
proof (induction rs arbitrary: pathObj st)
  case Nil
  show ?case by simp
next
  case (Cons x xs)
  from Cons.prems have "\<forall>ls. rd_description x \<noteq> Some (Lines ls)" by simp
  then have "\<exists>res. buildOut c s x st = Inr res"
    using assms(2) by (rule buildOut_returns)
  then obtain res where res: "buildOut c s x st = Inr res" ..
  obtain pth m out l st1 where "res = (pth, m, out, l, st1)"
    by (rule prod_cases5)
  with res have first: "buildOut c s x st = Inr (pth, m, out, l, st1)" by simp
  have step: "snd (forEachRoute c s (x # xs) pathObj st) =
      snd (forEachRoute c s xs (putOperation pathObj pth m out) st1)"
    by (simp add: first split_def Let_def)
  from Cons.prems have "\<forall>r\<in>set xs. \<forall>ls. rd_description r \<noteq> Some (Lines ls)" by simp
  then have "\<exists>res. snd (forEachRoute c s xs (putOperation pathObj pth m out) st1) = Inr res"
    by (rule Cons.IH)
  with step show ?case by simp
qed

lemma normalizeRoute_description:
  "rd_description (fst (normalizeRoute c r)) = r_description r"
  by (simp add: normalizeRoute_def split_def Let_def)

lemma build_returns_document:
  assumes "\<forall>r\<in>set routes. \<forall>ls. r_description r \<noteq> Some (Lines ls)"
    and "truthyStr (s_payloadType s)"
  shows "\<exists>doc. snd (build c s routes) = Inr doc"
proof -
  from assms(1) have "\<forall>d\<in>set (fst (normalizeAll c routes)). \<forall>ls. rd_description d \<noteq> Some (Lines ls)"
    by (simp add: normalizeAll_map normalizeRoute_description)
  then have "\<exists>res. snd (forEachRoute c s (fst (normalizeAll c routes)) Map.empty (freshState c)) = Inr res"
    using assms(2) by (rule forEachRoute_returns)
  then obtain res where
    "snd (forEachRoute c s (fst (normalizeAll c routes)) Map.empty (freshState c)) = Inr res" ..
  then show ?thesis
    by (cases res) (simp add: build_def buildRoutes_def split_def Let_def)
qed

subsection \<open>Where the code departs from its description\<close>

text \<open>
  C4. A route whose description is an array of lines makes \<^verbatim>\<open>build\<close> throw: line 139
  joins \<^verbatim>\<open>route.notes\<close>, which the normalized route does not have, instead of the lines
  of the description. This holds for every such route at the head of the list, whatever the
  collaborators, the settings and the other routes are.
\<close>

theorem description_lines_throw:
  "snd (build c s (r\<lparr>r_description := Some (Lines ls)\<rparr> # rs)) =
     Inl (TypeError ''Cannot read property join of undefined'')"
proof -
  have "buildOut c s (fst (normalizeRoute c (r\<lparr>r_description := Some (Lines ls)\<rparr>))) st =
      Inl (TypeError ''Cannot read property join of undefined'')" for st
    by (simp add: buildOut_def outDescription_def normalizeRoute_def split_def Let_def)
  then show ?thesis
    by (simp add: build_def buildRoutes_def normalizeAll_map split_def Let_def)
qed

text \<open>
  C3. \<^verbatim>\<open>build\<close> does not return a document for every list of routes: for the one route
  \<^verbatim>\<open>GET /a\<close> with the description \<^verbatim>\<open>['line one', 'line two']\<close> and no validators at all
  it throws a \<^verbatim>\<open>TypeError\<close>, having logged nothing.
\<close>

theorem build_throws_on_description_lines:
  "thrown (build demoCollab demoSettings
     [(demoRoute ''/a'' ''get'')\<lparr>r_description := Some (Lines [''line one'', ''line two''])\<rparr>]) =
     Some (TypeError ''Cannot read property join of undefined'') \<and>
   fst (build demoCollab demoSettings
     [(demoRoute ''/a'' ''get'')\<lparr>r_description := Some (Lines [''line one'', ''line two''])\<rparr>]) = []"
  by code_simp

text \<open>
  C2. A \<^verbatim>\<open>consumes\<close> list on the route does not reach the operation: line 63 reads
  \<^verbatim>\<open>route.comsumes\<close>. With \<^verbatim>\<open>application/json\<close> in the settings and
  \<^verbatim>\<open>application/xml\<close> on the route, the operation has the value of the settings; a
  \<^verbatim>\<open>produces\<close> list on the same route goes over the settings.
\<close>

theorem route_consumes_ignored:
  "map_option op_consumes
     (emittedOperation
        (build demoCollab
           (demoSettings\<lparr> s_consumes := Some [''application/json''],
                          s_produces := Some [''application/json''] \<rparr>)
           [(demoRoute ''/a'' ''post'')\<lparr> r_consumes := Some [''application/xml''],
                                        r_produces := Some [''application/xml''] \<rparr>])
        ''/a'' ''post'') = Some (Some [''application/json'']) \<and>
   map_option op_produces
     (emittedOperation
        (build demoCollab
           (demoSettings\<lparr> s_consumes := Some [''application/json''],
                          s_produces := Some [''application/json''] \<rparr>)
           [(demoRoute ''/a'' ''post'')\<lparr> r_consumes := Some [''application/xml''],
                                        r_produces := Some [''application/xml''] \<rparr>])
        ''/a'' ''post'') = Some (Some [''application/xml''])"
  by code_simp

text \<open>
  C8. An explicit \<^verbatim>\<open>deprecated: false\<close> on the route is lost: line 69 turns it into
  \<^verbatim>\<open>null\<close> before \<^verbatim>\<open>buildRoutes\<close> tests for \<^verbatim>\<open>null\<close>, so the operation has no
  \<^verbatim>\<open>deprecated\<close>, while \<^verbatim>\<open>deprecated: true\<close> is kept.
\<close>

theorem deprecated_false_dropped:
  "map_option op_deprecated
     (emittedOperation
        (build demoCollab demoSettings [(demoRoute ''/a'' ''get'')\<lparr> r_deprecated := Some False \<rparr>])
        ''/a'' ''get'') = Some None \<and>
   map_option op_deprecated
     (emittedOperation
        (build demoCollab demoSettings [(demoRoute ''/a'' ''get'')\<lparr> r_deprecated := Some True \<rparr>])
        ''/a'' ''get'') = Some (Some True)"
  by code_simp


end
